theory Spec2Isabelle
  imports Complex_Main
begin

section \<open>Decimal numbers as the program uses them\<close>

text \<open>
  \<^verbatim>\<open>src/main.ts\<close> holds every health factor, net worth and threshold as a
  \<^verbatim>\<open>Decimal\<close> of the decimal.js package: a sign, a list of decimal digits and a
  decimal exponent. The model keeps a signed integer coefficient and a decimal
  exponent; the number meant is \<open>coefficient * 10 ^ exponent\<close>. Only finite
  decimals are modelled: the program builds its decimals from the decimal strings of
  the data source and of the configuration.

  The program calls five operations of the package. Their model follows the
  package's documented contract under its default configuration, which the program
  never changes: comparisons are by numeric value; \<^verbatim>\<open>negated\<close> is exact;
  \<^verbatim>\<open>minus\<close> returns the difference rounded to \<^verbatim>\<open>precision = 20\<close>
  significant digits with rounding mode \<^verbatim>\<open>ROUND_HALF_UP\<close> (nearest, ties away
  from zero); \<^verbatim>\<open>toFixed(dp)\<close> rounds to \<open>dp\<close> decimal places with the same
  rounding mode and prints in normal notation.
\<close>

record Decimal =
  coefficient :: int
  exponent :: int

definition val :: "Decimal \<Rightarrow> rat" where
  "val d = of_int (coefficient d) * 10 powi exponent d"

text \<open>The coefficient of \<open>d\<close> once its exponent is lowered to \<open>m\<close>.\<close>

definition scaled :: "int \<Rightarrow> Decimal \<Rightarrow> int" where
  "scaled m d = coefficient d * 10 ^ nat (exponent d - m)"

definition cmp :: "Decimal \<Rightarrow> Decimal \<Rightarrow> int" where
  "cmp x y =
     (let m = min (exponent x) (exponent y); a = scaled m x; b = scaled m y
      in if a < b then - 1 else if a = b then 0 else 1)"

definition gt :: "Decimal \<Rightarrow> Decimal \<Rightarrow> bool" where
  "gt x y = (cmp x y > 0)"

definition greaterThanOrEqualTo :: "Decimal \<Rightarrow> Decimal \<Rightarrow> bool" where
  "greaterThanOrEqualTo x y = (let k = cmp x y in k = 1 \<or> k = 0)"

definition negated :: "Decimal \<Rightarrow> Decimal" where
  "negated x = x\<lparr>coefficient := - coefficient x\<rparr>"

text \<open>The number of decimal digits of a non-negative integer (1 for zero).\<close>

function digit_count :: "int \<Rightarrow> nat" where
  "digit_count n = (if n < 10 then 1 else Suc (digit_count (n div 10)))"
  by pat_completeness auto
termination
  by (relation "measure nat") auto

declare digit_count.simps [simp del]

definition precision :: nat where
  "precision = 20"

text \<open>
  Rounding to \<open>sd\<close> significant digits, half away from zero: a coefficient of more
  than \<open>sd\<close> digits loses its last \<open>k\<close> digits, and the exponent grows by \<open>k\<close>.
\<close>

definition finalise :: "nat \<Rightarrow> Decimal \<Rightarrow> Decimal" where
  "finalise sd d =
     (let c = coefficient d; n = digit_count \<bar>c\<bar>
      in if n \<le> sd then d
         else (let k = n - sd
               in \<lparr>coefficient = sgn c * ((\<bar>c\<bar> + 5 * 10 ^ (k - 1)) div 10 ^ k),
                   exponent = exponent d + int k\<rparr>))"

definition minus_dec :: "Decimal \<Rightarrow> Decimal \<Rightarrow> Decimal" where
  "minus_dec x y =
     (let m = min (exponent x) (exponent y)
      in finalise precision \<lparr>coefficient = scaled m x - scaled m y, exponent = m\<rparr>)"


section \<open>Configuration and samples\<close>

text \<open>
  The four thresholds of \<^verbatim>\<open>src/environment.ts\<close>, under the names the source gives
  them (\<^verbatim>\<open>CRITITAL_DELTA\<close> is the source's spelling), and their defaults
  \<^verbatim>\<open>'2.5'\<close>, \<^verbatim>\<open>'1.7'\<close>, \<^verbatim>\<open>'0.5'\<close> and \<^verbatim>\<open>'1'\<close>.
\<close>

record Environment =
  WARNING_LEVEL :: Decimal
  CRITICAL_LEVEL :: Decimal
  WARNING_DELTA :: Decimal
  CRITITAL_DELTA :: Decimal

definition default_environment :: Environment where
  "default_environment =
     \<lparr>WARNING_LEVEL = \<lparr>coefficient = 25, exponent = - 1\<rparr>,
      CRITICAL_LEVEL = \<lparr>coefficient = 17, exponent = - 1\<rparr>,
      WARNING_DELTA = \<lparr>coefficient = 5, exponent = - 1\<rparr>,
      CRITITAL_DELTA = \<lparr>coefficient = 1, exponent = 0\<rparr>\<rparr>"

text \<open>\<^verbatim>\<open>healthFactor: Decimal | null\<close> is an option; \<open>None\<close> is \<^verbatim>\<open>null\<close>.\<close>

record UserStatus =
  healthFactor :: "Decimal option"
  netWorth :: Decimal

datatype Status = GOOD | WARNING | CRITICAL


section \<open>The classifier\<close>

definition getStatusFromHealth :: "Environment \<Rightarrow> Decimal \<Rightarrow> Status" where
  "getStatusFromHealth env health =
     (if greaterThanOrEqualTo health (WARNING_LEVEL env) then GOOD
      else if greaterThanOrEqualTo health (CRITICAL_LEVEL env) then WARNING
      else CRITICAL)"


section \<open>The alert decision\<close>

text \<open>
  \<^verbatim>\<open>getAlertTrigger\<close> returns one of five literal strings or \<^verbatim>\<open>null\<close>. The
  five literals carry the names of the trigger kinds.
\<close>

definition NoLongerComputable :: string where
  "NoLongerComputable = ''no health factor now''"

definition CriticalLevel :: string where
  "CriticalLevel = ''critical health factor''"

definition WarningLevel :: string where
  "WarningLevel = ''warning health factor''"

definition WarningDelta :: string where
  "WarningDelta = ''warning delta of health factor''"

definition CriticalDelta :: string where
  "CriticalDelta = ''critical delta of health factor''"

record AlertContext =
  previousStatus :: UserStatus
  status :: UserStatus

text \<open>
  The source tests \<^verbatim>\<open>!context.status.healthFactor\<close>. A \<^verbatim>\<open>Decimal\<close> is an
  object and every object is truthy, the decimal zero too, so the test holds exactly
  for \<^verbatim>\<open>null\<close>. The global \<^verbatim>\<open>warningWasSent\<close> is passed in and returned
  next to the trigger.
\<close>

definition getAlertTrigger ::
  "Environment \<Rightarrow> AlertContext \<Rightarrow> bool \<Rightarrow> string option \<times> bool" where
  "getAlertTrigger env ctx warningWasSent =
     (case (healthFactor (status ctx), healthFactor (previousStatus ctx)) of
        (None, Some previous) \<Rightarrow> (Some NoLongerComputable, warningWasSent)
      | (None, None) \<Rightarrow> (None, warningWasSent)
      | (Some current, None) \<Rightarrow> (None, warningWasSent)
      | (Some current, Some previous) \<Rightarrow>
          (case getStatusFromHealth env current of
             CRITICAL \<Rightarrow> (Some CriticalLevel, warningWasSent)
           | WARNING \<Rightarrow>
               (if warningWasSent then (None, warningWasSent)
                else (Some WarningLevel, True))
           | GOOD \<Rightarrow>
               (let difference = minus_dec current previous
                in if gt difference (negated (WARNING_DELTA env)) then (None, False)
                   else if gt difference (negated (CRITITAL_DELTA env))
                   then (Some WarningDelta, False)
                   else (Some CriticalDelta, False))))"


section \<open>Rendering\<close>

text \<open>
  Strings are lists of bytes; the characters outside ASCII that the source writes
  are given by their UTF-8 bytes.
\<close>

definition newline :: string where
  "newline = [CHR 0x0A]"

definition backtick :: string where
  "backtick = [CHR 0x60]"

text \<open>\<^verbatim>\<open>String.raw`\.`\<close>: a backslash and a dot.\<close>

definition escaped_dot :: string where
  "escaped_dot = [CHR 0x5C, CHR ''.'']"

definition no_entry_sign :: string where
  "no_entry_sign = [CHR 0xE2, CHR 0x9B, CHR 0x94, CHR 0xEF, CHR 0xB8, CHR 0x8F]"

definition check_mark :: string where
  "check_mark = [CHR 0xE2, CHR 0x9C, CHR 0x85]"

definition warning_sign :: string where
  "warning_sign = [CHR 0xE2, CHR 0x9A, CHR 0xA0, CHR 0xEF, CHR 0xB8, CHR 0x8F]"

definition right_arrow :: string where
  "right_arrow = [CHR 0xE2, CHR 0x9E, CHR 0xA1, CHR 0xEF, CHR 0xB8, CHR 0x8F]"

definition name_badge :: string where
  "name_badge = [CHR 0xF0, CHR 0x9F, CHR 0x93, CHR 0x9B]"

definition double_exclamation :: string where
  "double_exclamation = [CHR 0xE2, CHR 0x80, CHR 0xBC, CHR 0xEF, CHR 0xB8, CHR 0x8F]"

definition digit_char :: "int \<Rightarrow> char" where
  "digit_char d = ''0123456789'' ! nat d"

function digits_str :: "int \<Rightarrow> string" where
  "digits_str n =
     (if n < 10 then [digit_char n] else digits_str (n div 10) @ [digit_char (n mod 10)])"
  by pat_completeness auto
termination
  by (relation "measure nat") auto

declare digits_str.simps [simp del]

text \<open>The last \<open>dp\<close> decimal digits of \<open>n\<close>, with leading zeros.\<close>

definition fraction_digits :: "nat \<Rightarrow> int \<Rightarrow> string" where
  "fraction_digits dp n = map (\<lambda>i. digit_char (n div 10 ^ i mod 10)) (rev [0..<dp])"

text \<open>
  \<^verbatim>\<open>toFixed(dp)\<close>: \<open>n\<close> is the magnitude in units of \<open>10 ^ - dp\<close>, rounded
  half away from zero; the sign printed is the sign of the unrounded number.
\<close>

definition toFixed :: "nat \<Rightarrow> Decimal \<Rightarrow> string" where
  "toFixed dp d =
     (let c = coefficient d; s = exponent d + int dp;
          n = (if 0 \<le> s then \<bar>c\<bar> * 10 ^ nat s
               else (\<bar>c\<bar> + 5 * 10 ^ (nat (- s) - 1)) div 10 ^ nat (- s))
      in (if c < 0 then ''-'' else [])
         @ digits_str (n div 10 ^ dp)
         @ (if dp = 0 then [] else CHR ''.'' # fraction_digits dp n))"

text \<open>
  \<^verbatim>\<open>replace\<close> with a pattern of one character rewrites its first occurrence,
  \<^verbatim>\<open>replaceAll\<close> every occurrence.
\<close>

fun replace_first :: "char \<Rightarrow> string \<Rightarrow> string \<Rightarrow> string" where
  "replace_first c r [] = []"
| "replace_first c r (x # xs) = (if x = c then r @ xs else x # replace_first c r xs)"

definition replaceAll :: "char \<Rightarrow> string \<Rightarrow> string \<Rightarrow> string" where
  "replaceAll c r s = concat (map (\<lambda>x. if x = c then r else [x]) s)"

text \<open>\<^verbatim>\<open>d.toFixed(2).replace('.', String.raw`\.`)\<close>\<close>

definition fixed2 :: "Decimal \<Rightarrow> string" where
  "fixed2 d = replace_first (CHR ''.'') escaped_dot (toFixed 2 d)"

text \<open>\<^verbatim>\<open>h?.toFixed(2).replace('.', String.raw`\.`) ?? 'N/A'\<close>\<close>

definition health_field :: "Decimal option \<Rightarrow> string" where
  "health_field h = (case h of None \<Rightarrow> ''N/A'' | Some d \<Rightarrow> fixed2 d)"

definition getStatusString :: "Environment \<Rightarrow> UserStatus \<Rightarrow> string" where
  "getStatusString env st =
     (case healthFactor st of
        None \<Rightarrow> ''N/A''
      | Some h \<Rightarrow>
          (case getStatusFromHealth env h of
             CRITICAL \<Rightarrow> no_entry_sign @ '' Critical '' @ no_entry_sign
           | GOOD \<Rightarrow> check_mark @ '' Good '' @ check_mark
           | WARNING \<Rightarrow> warning_sign @ '' Warning '' @ warning_sign))"

text \<open>The template of \<^verbatim>\<open>getStatusMessage\<close>, applied to the fetched sample.\<close>

definition formatStatus :: "Environment \<Rightarrow> UserStatus \<Rightarrow> string" where
  "formatStatus env st =
     ''*'' @ getStatusString env st @ ''*'' @ newline @ newline
     @ ''Health factor: *'' @ health_field (healthFactor st) @ ''*'' @ newline
     @ ''Net worth: *'' @ fixed2 (netWorth st) @ ''$*''"

text \<open>
  A call of the data source or of the message channel either gives its value or
  throws; what is thrown is kept as the text that \<^verbatim>\<open>${error}\<close> prints.
\<close>

type_synonym error = string

definition getStatusMessage :: "Environment \<Rightarrow> error + UserStatus \<Rightarrow> error + string" where
  "getStatusMessage env fetched =
     (case fetched of Inl e \<Rightarrow> Inl e | Inr st \<Rightarrow> Inr (formatStatus env st))"

text \<open>
  \<^verbatim>\<open>getDifferenceStatusMessage\<close> is only called with a sample at hand, so its
  \<^verbatim>\<open>status ??= await getUserStatus()\<close> never fetches.
\<close>

definition getDifferenceStatusMessage ::
  "Environment \<Rightarrow> UserStatus \<Rightarrow> UserStatus \<Rightarrow> string" where
  "getDifferenceStatusMessage env st previous =
     ''*'' @ getStatusString env st @ ''*'' @ newline @ newline
     @ ''Health factor: *'' @ health_field (healthFactor previous) @ ''* '' @ right_arrow
     @ '' *'' @ health_field (healthFactor st) @ ''*'' @ newline
     @ ''Net worth: *'' @ fixed2 (netWorth previous) @ ''$* '' @ right_arrow
     @ '' *'' @ fixed2 (netWorth st) @ ''$*''"

definition getErrorMessage :: "error \<Rightarrow> string \<Rightarrow> string" where
  "getErrorMessage e flow =
     name_badge @ '' Error on '' @ backtick @ flow @ backtick @ '' '' @ name_badge @ newline
     @ backtick @ backtick @ backtick @ newline @ e @ backtick @ backtick @ backtick"


section \<open>The engine state and one evaluation\<close>

text \<open>
  The two module variables \<^verbatim>\<open>previousStatus\<close> and \<^verbatim>\<open>warningWasSent\<close>, with
  their initial values.
\<close>

record EngineState =
  previousSample :: UserStatus
  warningAlreadySent :: bool

definition initial_state :: EngineState where
  "initial_state =
     \<lparr>previousSample =
        \<lparr>healthFactor = Some \<lparr>coefficient = 0, exponent = 0\<rparr>,
         netWorth = \<lparr>coefficient = 0, exponent = 0\<rparr>\<rparr>,
      warningAlreadySent = False\<rparr>"

text \<open>
  The middle of \<^verbatim>\<open>getAlertMessage\<close>: the trigger is computed from the stored
  sample and the new one, then the new sample is stored.
\<close>

definition evaluate ::
  "Environment \<Rightarrow> UserStatus \<Rightarrow> EngineState \<Rightarrow> string option \<times> EngineState" where
  "evaluate env st s =
     (let (alertTrigger, sent) =
            getAlertTrigger env \<lparr>previousStatus = previousSample s, status = st\<rparr>
              (warningAlreadySent s)
      in (alertTrigger, \<lparr>previousSample = st, warningAlreadySent = sent\<rparr>))"

text \<open>
  \<^verbatim>\<open>getAlertMessage\<close>: a failed fetch throws before anything is stored.
  \<^verbatim>\<open>if (alertTrigger)\<close> holds for a string that is not empty.
\<close>

definition getAlertMessage ::
  "Environment \<Rightarrow> error + UserStatus \<Rightarrow> EngineState \<Rightarrow> (error + string option) \<times> EngineState"
  where
  "getAlertMessage env fetched s =
     (case fetched of
        Inl e \<Rightarrow> (Inl e, s)
      | Inr st \<Rightarrow>
          (let (alertTrigger, s') = evaluate env st s;
               oldPreviousStatus = previousSample s
           in (case alertTrigger of
                 None \<Rightarrow> (Inr None, s')
               | Some t \<Rightarrow>
                   (if t = [] then (Inr None, s')
                    else (Inr (Some (double_exclamation @ '' ALERT '' @ double_exclamation
                            @ newline @ ''Trigger: '' @ backtick
                            @ replaceAll (CHR ''.'') escaped_dot t @ backtick
                            @ newline @ newline
                            @ getDifferenceStatusMessage env st oldPreviousStatus)), s')))))"

text \<open>The triggers of a run of evaluations, one per sample.\<close>

fun triggers :: "Environment \<Rightarrow> UserStatus list \<Rightarrow> EngineState \<Rightarrow> string option list" where
  "triggers env [] s = []"
| "triggers env (st # sts) s =
     (let (alertTrigger, s') = evaluate env st s in alertTrigger # triggers env sts s')"


section \<open>The status command and the poll loop\<close>

text \<open>
  The handler of \<^verbatim>\<open>bot.command('status', ...)\<close>: the text it hands to
  \<^verbatim>\<open>context.sendMessage\<close>, and the engine state after it.
\<close>

definition status_command ::
  "Environment \<Rightarrow> error + UserStatus \<Rightarrow> EngineState \<Rightarrow> string \<times> EngineState" where
  "status_command env fetched s =
     (case getStatusMessage env fetched of
        Inr message \<Rightarrow> (message, s)
      | Inl e \<Rightarrow> (getErrorMessage e ''status'', s))"

text \<open>
  What the outside answers during one tick: the result of the fetch, and whether
  the delivery of the alert and the delivery of the error message throw
  (\<open>None\<close>: the message is delivered), should the tick come to make them.
\<close>

record TickIO =
  fetched :: "error + UserStatus"
  alertDelivery :: "error option"
  recoveryDelivery :: "error option"

text \<open>
  What one run of \<^verbatim>\<open>checkHealth\<close> leaves: the engine state, the messages
  delivered, what the \<^verbatim>\<open>.catch\<close> of its caller logged, and whether it reached
  its \<^verbatim>\<open>setTimeout\<close>.
\<close>

record TickOutcome =
  engine :: EngineState
  delivered :: "string list"
  warned :: "error list"
  rescheduled :: bool

text \<open>
  \<^verbatim>\<open>checkHealth\<close>: the \<^verbatim>\<open>try\<close> block throws when the fetch or the delivery
  of the alert does. The \<^verbatim>\<open>catch\<close> block awaits the delivery of the error
  message; when that throws, the function is left before \<^verbatim>\<open>setTimeout\<close>.
\<close>

definition checkHealth :: "Environment \<Rightarrow> TickIO \<Rightarrow> EngineState \<Rightarrow> TickOutcome" where
  "checkHealth env io s =
     (let (alertMessage, s') = getAlertMessage env (fetched io) s;
          thrown = (case alertMessage of
                      Inl e \<Rightarrow> Some e
                    | Inr None \<Rightarrow> None
                    | Inr (Some message) \<Rightarrow> alertDelivery io);
          sent = (case alertMessage of
                    Inr (Some message) \<Rightarrow> (if alertDelivery io = None then [message] else [])
                  | _ \<Rightarrow> [])
      in case thrown of
           None \<Rightarrow> \<lparr>engine = s', delivered = sent, warned = [], rescheduled = True\<rparr>
         | Some e \<Rightarrow>
             (case recoveryDelivery io of
                None \<Rightarrow>
                  \<lparr>engine = s', delivered = [getErrorMessage e ''check''], warned = [],
                   rescheduled = True\<rparr>
              | Some e' \<Rightarrow>
                  \<lparr>engine = s', delivered = [], warned = [e'], rescheduled = False\<rparr>))"

text \<open>
  \<^verbatim>\<open>startCheckingHealth\<close>: the ticks that run, given what the outside answers
  at each. The next tick runs only when the one before reached \<^verbatim>\<open>setTimeout\<close>.
\<close>

fun startCheckingHealth :: "Environment \<Rightarrow> TickIO list \<Rightarrow> EngineState \<Rightarrow> TickOutcome list" where
  "startCheckingHealth env [] s = []"
| "startCheckingHealth env (io # ios) s =
     (let outcome = checkHealth env io s
      in outcome # (if rescheduled outcome then startCheckingHealth env ios (engine outcome)
                    else []))"


text \<open>
  The handlers that the runtime starts, in the order in which they run: a tick of the
  poll loop or a status command. \<open>run_events\<close> is the engine state they leave.
\<close>

datatype Event = Tick TickIO | StatusCommand "error + UserStatus"

fun handle :: "Environment \<Rightarrow> Event \<Rightarrow> EngineState \<Rightarrow> EngineState" where
  "handle env (Tick io) s = engine (checkHealth env io s)"
| "handle env (StatusCommand answer) s = snd (status_command env answer s)"

fun is_tick :: "Event \<Rightarrow> bool" where
  "is_tick (Tick io) = True"
| "is_tick (StatusCommand answer) = False"

definition run_events :: "Environment \<Rightarrow> Event list \<Rightarrow> EngineState \<Rightarrow> EngineState" where
  "run_events env events s = fold (handle env) events s"


section \<open>Notation for samples and runs\<close>

text \<open>\<open>dec c e\<close> is the decimal \<open>c * 10 ^ e\<close>: \<open>dec 25 (- 1)\<close> is 2.5.\<close>

definition dec :: "int \<Rightarrow> int \<Rightarrow> Decimal" where
  "dec c e = \<lparr>coefficient = c, exponent = e\<rparr>"

text \<open>A sample with the health factor \<open>h\<close>, and one without a health factor.\<close>

definition sample :: "Decimal \<Rightarrow> Decimal \<Rightarrow> UserStatus" where
  "sample h n = \<lparr>healthFactor = Some h, netWorth = n\<rparr>"

definition absent :: "Decimal \<Rightarrow> UserStatus" where
  "absent n = \<lparr>healthFactor = None, netWorth = n\<rparr>"

text \<open>The engine state after a run of evaluations.\<close>

definition final_state :: "Environment \<Rightarrow> UserStatus list \<Rightarrow> EngineState \<Rightarrow> EngineState" where
  "final_state env sts s = fold (\<lambda>st s. snd (evaluate env st s)) sts s"

text \<open>Thresholds under which 1.9 and 2.2 classify as GOOD.\<close>

definition low_levels :: Environment where
  "low_levels = default_environment\<lparr>WARNING_LEVEL := dec 15 (- 1), CRITICAL_LEVEL := dec 1 0\<rparr>"

text \<open>
  Three answers of the outside to a tick: the fetch and the delivery of the error
  message both throw; a sample that fires an alert, and both deliveries throw; a
  sample that fires nothing.
\<close>

definition fetch_fails :: TickIO where
  "fetch_fails =
     \<lparr>fetched = Inl ''fetch failed'', alertDelivery = None,
      recoveryDelivery = Some ''send failed''\<rparr>"

definition delivery_fails :: TickIO where
  "delivery_fails =
     \<lparr>fetched = Inr (sample (dec 1 0) (dec 0 0)), alertDelivery = Some ''send failed'',
      recoveryDelivery = Some ''send failed''\<rparr>"

definition quiet_tick :: TickIO where
  "quiet_tick =
     \<lparr>fetched = Inr (sample (dec 3 0) (dec 0 0)), alertDelivery = None,
      recoveryDelivery = None\<rparr>"


section \<open>Facts about the decimal operations\<close>

lemma val_scaled: "m \<le> exponent d \<Longrightarrow> of_int (scaled m d) * 10 powi m = val d"
proof -
  assume le: "m \<le> exponent d"
  define k where "k = nat (exponent d - m)"
  have "exponent d = int k + m"
    using le by (simp add: k_def)
  moreover have "(10::rat) powi (int k + m) = 10 powi int k * 10 powi m"
    by (rule power_int_add) simp
  ultimately have "(10::rat) powi exponent d = 10 ^ k * 10 powi m"
    by simp
  then show ?thesis
    by (simp add: scaled_def val_def k_def)
qed

lemma powi10_pos: "(0::rat) < 10 powi m"
  by (simp add: zero_less_power_int)

lemma cmp_sign:
  "cmp x y = (if val x < val y then - 1 else if val x = val y then 0 else 1)"
proof -
  define m where "m = min (exponent x) (exponent y)"
  have vx: "val x = of_int (scaled m x) * 10 powi m"
    and vy: "val y = of_int (scaled m y) * 10 powi m"
    by (simp_all add: m_def val_scaled)
  have lt: "scaled m x < scaled m y \<longleftrightarrow> val x < val y"
    unfolding vx vy using powi10_pos [of m] by (simp add: mult_less_cancel_right_pos)
  have eq: "scaled m x = scaled m y \<longleftrightarrow> val x = val y"
    unfolding vx vy using powi10_pos [of m] by simp
  show ?thesis
    unfolding cmp_def Let_def m_def [symmetric] by (simp add: lt eq)
qed

lemma gt_val: "gt x y \<longleftrightarrow> val y < val x"
  by (auto simp: gt_def cmp_sign)

lemma greaterThanOrEqualTo_val: "greaterThanOrEqualTo x y \<longleftrightarrow> val y \<le> val x"
  by (auto simp: greaterThanOrEqualTo_def cmp_sign Let_def)

lemma val_negated: "val (negated x) = - val x"
  by (simp add: negated_def val_def)

lemma digit_count_upper: "n < 10 ^ digit_count n"
proof (induction n rule: digit_count.induct)
  case (1 n)
  show ?case
  proof (cases "n < 10")
    case True
    then show ?thesis by (simp add: digit_count.simps [of n])
  next
    case False
    with 1 have "n div 10 < 10 ^ digit_count (n div 10)" by simp
    then have "n < 10 * 10 ^ digit_count (n div 10)" by simp
    with False show ?thesis by (simp add: digit_count.simps [of n])
  qed
qed

lemma digit_count_lower: "0 < n \<Longrightarrow> 10 ^ (digit_count n - 1) \<le> n"
proof (induction n rule: digit_count.induct)
  case (1 n)
  show ?case
  proof (cases "n < 10")
    case True
    with 1 show ?thesis by (simp add: digit_count.simps [of n])
  next
    case False
    with 1 have "10 ^ (digit_count (n div 10) - 1) \<le> n div 10" by simp
    moreover have "0 < digit_count (n div 10)" by (simp add: digit_count.simps [of "n div 10"])
    ultimately have "10 ^ digit_count (n div 10) \<le> 10 * (n div 10)"
      by (cases "digit_count (n div 10)") simp_all
    also have "\<dots> \<le> n" by simp
    finally show ?thesis using False by (simp add: digit_count.simps [of n])
  qed
qed

lemma finalise_exact: "digit_count \<bar>coefficient d\<bar> \<le> sd \<Longrightarrow> finalise sd d = d"
  by (simp add: finalise_def Let_def)

lemma finalise_pos:
  assumes "0 < sd" and "0 < coefficient d"
  shows "0 < coefficient (finalise sd d)"
proof (cases "digit_count \<bar>coefficient d\<bar> \<le> sd")
  case True
  with assms show ?thesis by (simp add: finalise_exact)
next
  case False
  define c where "c = coefficient d"
  define n where "n = digit_count \<bar>coefficient d\<bar>"
  define k where "k = n - sd"
  have c: "0 < c" "\<bar>c\<bar> = c" "sgn c = 1"
    using assms by (simp_all add: c_def)
  from False have n: "sd < n"
    by (simp add: n_def)
  have nc: "n = digit_count c"
    using c by (simp add: n_def c_def)
  have "k \<le> n - 1"
    using assms n by (simp add: k_def)
  then have "(10::int) ^ k \<le> 10 ^ (n - 1)"
    by (simp add: power_increasing)
  also have "\<dots> \<le> c"
    unfolding nc using c by (intro digit_count_lower)
  finally have "(10::int) ^ k \<le> c + 5 * 10 ^ (k - 1)"
    by (simp add: add_increasing2)
  then have "0 < (c + 5 * 10 ^ (k - 1)) div 10 ^ k"
    by (simp add: pos_imp_zdiv_pos_iff)
  moreover have "coefficient (finalise sd d) = sgn c * ((\<bar>c\<bar> + 5 * 10 ^ (k - 1)) div 10 ^ k)"
    using False by (simp add: finalise_def Let_def c_def n_def k_def)
  ultimately show ?thesis
    using c by simp
qed

lemma powi10_not_neg: "\<not> (10::rat) powi m < 0"
  using powi10_pos [of m] by linarith

lemma val_pos_iff: "0 < val d \<longleftrightarrow> 0 < coefficient d"
  by (simp add: val_def zero_less_mult_iff powi10_pos powi10_not_neg)

lemma minus_dec_pos:
  assumes "val y < val x"
  shows "0 < val (minus_dec x y)"
proof -
  define m where "m = min (exponent x) (exponent y)"
  have vx: "val x = of_int (scaled m x) * 10 powi m"
    and vy: "val y = of_int (scaled m y) * 10 powi m"
    by (simp_all add: m_def val_scaled)
  have "scaled m y < scaled m x"
    using assms powi10_pos [of m] unfolding vx vy by (simp add: mult_less_cancel_right_pos)
  then have "0 < coefficient (finalise precision \<lparr>coefficient = scaled m x - scaled m y, exponent = m\<rparr>)"
    by (intro finalise_pos) (simp_all add: precision_def)
  then show ?thesis
    unfolding minus_dec_def Let_def m_def [symmetric] by (simp add: val_pos_iff)
qed

lemma minus_exact:
  assumes "digit_count \<bar>scaled (min (exponent x) (exponent y)) x
                          - scaled (min (exponent x) (exponent y)) y\<bar> \<le> precision"
  shows "val (minus_dec x y) = val x - val y"
proof -
  define m where "m = min (exponent x) (exponent y)"
  have vx: "val x = of_int (scaled m x) * 10 powi m"
    and vy: "val y = of_int (scaled m y) * 10 powi m"
    by (simp_all add: m_def val_scaled)
  have "minus_dec x y = \<lparr>coefficient = scaled m x - scaled m y, exponent = m\<rparr>"
    using assms unfolding minus_dec_def Let_def m_def [symmetric]
    by (simp add: finalise_exact)
  then show ?thesis
    by (simp add: val_def [of "\<lparr>coefficient = _, exponent = _\<rparr>"] vx vy algebra_simps)
qed



section \<open>The classifier is the three bands\<close>

lemma getStatusFromHealth_GOOD:
  "getStatusFromHealth env h = GOOD \<longleftrightarrow> val (WARNING_LEVEL env) \<le> val h"
  by (simp add: getStatusFromHealth_def greaterThanOrEqualTo_val)

lemma getStatusFromHealth_WARNING:
  "getStatusFromHealth env h = WARNING \<longleftrightarrow>
     val (CRITICAL_LEVEL env) \<le> val h \<and> val h < val (WARNING_LEVEL env)"
  by (auto simp: getStatusFromHealth_def greaterThanOrEqualTo_val)

lemma getStatusFromHealth_CRITICAL:
  "getStatusFromHealth env h = CRITICAL \<longleftrightarrow>
     val h < val (CRITICAL_LEVEL env) \<and> val h < val (WARNING_LEVEL env)"
  by (auto simp: getStatusFromHealth_def greaterThanOrEqualTo_val)

text \<open>
  C3. With the critical level below the warning level, a health factor is GOOD exactly
  when it is at least the warning level, WARNING exactly when it is at least the
  critical level and below the warning level, and CRITICAL exactly when it is below
  the critical level. A value equal to a threshold is in the higher band. The
  classifier is a total function of the thresholds and the value: it has no error
  result and no state.
\<close>

theorem classifier_bands:
  assumes "val (CRITICAL_LEVEL env) < val (WARNING_LEVEL env)"
  shows "(getStatusFromHealth env h = GOOD \<longleftrightarrow> val (WARNING_LEVEL env) \<le> val h)
       \<and> (getStatusFromHealth env h = WARNING \<longleftrightarrow>
            val (CRITICAL_LEVEL env) \<le> val h \<and> val h < val (WARNING_LEVEL env))
       \<and> (getStatusFromHealth env h = CRITICAL \<longleftrightarrow> val h < val (CRITICAL_LEVEL env))
       \<and> (val h = val (WARNING_LEVEL env) \<longrightarrow> getStatusFromHealth env h = GOOD)
       \<and> (val h = val (CRITICAL_LEVEL env) \<longrightarrow> getStatusFromHealth env h = WARNING)"
proof -
  have "getStatusFromHealth env h = CRITICAL \<longleftrightarrow> val h < val (CRITICAL_LEVEL env)"
    using assms by (auto simp: getStatusFromHealth_CRITICAL)
  moreover have "val h = val (CRITICAL_LEVEL env) \<longrightarrow> getStatusFromHealth env h = WARNING"
    using assms by (simp add: getStatusFromHealth_WARNING)
  ultimately show ?thesis
    by (simp add: getStatusFromHealth_GOOD getStatusFromHealth_WARNING)
qed

theorem classifier_bands_witness:
  "val (CRITICAL_LEVEL default_environment) < val (WARNING_LEVEL default_environment)
   \<and> getStatusFromHealth default_environment \<lparr>coefficient = 25, exponent = - 1\<rparr> = GOOD
   \<and> getStatusFromHealth default_environment \<lparr>coefficient = 17, exponent = - 1\<rparr> = WARNING
   \<and> getStatusFromHealth default_environment \<lparr>coefficient = 169, exponent = - 2\<rparr> = CRITICAL"
proof -
  have lt: "val (CRITICAL_LEVEL default_environment) < val (WARNING_LEVEL default_environment)"
    by (simp add: default_environment_def val_def power_int_minus)
  show ?thesis
    using lt classifier_bands [OF lt, of "\<lparr>coefficient = 25, exponent = - 1\<rparr>"]
      classifier_bands [OF lt, of "\<lparr>coefficient = 17, exponent = - 1\<rparr>"]
      classifier_bands [OF lt, of "\<lparr>coefficient = 169, exponent = - 2\<rparr>"]
    by (simp add: default_environment_def val_def power_int_minus)
qed


section \<open>The branches of the alert decision\<close>

lemma trigger_now_absent:
  "healthFactor st = None \<Longrightarrow> healthFactor prev = Some p \<Longrightarrow>
   getAlertTrigger env \<lparr>previousStatus = prev, status = st\<rparr> w = (Some NoLongerComputable, w)"
  by (simp add: getAlertTrigger_def)

lemma trigger_both_absent:
  "healthFactor st = None \<Longrightarrow> healthFactor prev = None \<Longrightarrow>
   getAlertTrigger env \<lparr>previousStatus = prev, status = st\<rparr> w = (None, w)"
  by (simp add: getAlertTrigger_def)

lemma trigger_previous_absent:
  "healthFactor prev = None \<Longrightarrow>
   getAlertTrigger env \<lparr>previousStatus = prev, status = st\<rparr> w = (None, w)"
  by (cases "healthFactor st") (simp_all add: getAlertTrigger_def)

lemma trigger_critical:
  "healthFactor st = Some h \<Longrightarrow> healthFactor prev = Some p \<Longrightarrow>
   getStatusFromHealth env h = CRITICAL \<Longrightarrow>
   getAlertTrigger env \<lparr>previousStatus = prev, status = st\<rparr> w = (Some CriticalLevel, w)"
  by (simp add: getAlertTrigger_def)

lemma trigger_warning:
  "healthFactor st = Some h \<Longrightarrow> healthFactor prev = Some p \<Longrightarrow>
   getStatusFromHealth env h = WARNING \<Longrightarrow>
   getAlertTrigger env \<lparr>previousStatus = prev, status = st\<rparr> w =
     (if w then (None, True) else (Some WarningLevel, True))"
  by (simp add: getAlertTrigger_def)

lemma trigger_good:
  "healthFactor st = Some h \<Longrightarrow> healthFactor prev = Some p \<Longrightarrow>
   getStatusFromHealth env h = GOOD \<Longrightarrow>
   getAlertTrigger env \<lparr>previousStatus = prev, status = st\<rparr> w =
     (if - val (WARNING_DELTA env) < val (minus_dec h p) then (None, False)
      else if - val (CRITITAL_DELTA env) < val (minus_dec h p) then (Some WarningDelta, False)
      else (Some CriticalDelta, False))"
  by (simp add: getAlertTrigger_def Let_def gt_val val_negated)

lemma evaluate_eq:
  "evaluate env st s =
     (fst (getAlertTrigger env \<lparr>previousStatus = previousSample s, status = st\<rparr> (warningAlreadySent s)),
      \<lparr>previousSample = st,
       warningAlreadySent =
         snd (getAlertTrigger env \<lparr>previousStatus = previousSample s, status = st\<rparr> (warningAlreadySent s))\<rparr>)"
  by (simp add: evaluate_def split: prod.splits)

lemma evaluate_warning:
  assumes "healthFactor (previousSample s) = Some p" "healthFactor st = Some h"
    and "getStatusFromHealth env h = WARNING"
  shows "evaluate env st s =
      (if warningAlreadySent s then None else Some WarningLevel,
       \<lparr>previousSample = st, warningAlreadySent = True\<rparr>)"
  using assms by (simp add: evaluate_eq trigger_warning [where p = p and h = h])

lemma evaluate_good:
  assumes "healthFactor (previousSample s) = Some p" "healthFactor st = Some h"
    and "getStatusFromHealth env h = GOOD"
  shows "evaluate env st s =
      (if - val (WARNING_DELTA env) < val (minus_dec h p) then None
       else if - val (CRITITAL_DELTA env) < val (minus_dec h p) then Some WarningDelta
       else Some CriticalDelta,
       \<lparr>previousSample = st, warningAlreadySent = False\<rparr>)"
  using assms by (simp add: evaluate_eq trigger_good [where p = p and h = h])

lemma evaluate_critical:
  assumes "healthFactor (previousSample s) = Some p" "healthFactor st = Some h"
    and "getStatusFromHealth env h = CRITICAL"
  shows "evaluate env st s =
      (Some CriticalLevel, \<lparr>previousSample = st, warningAlreadySent = warningAlreadySent s\<rparr>)"
  using assms by (simp add: evaluate_eq trigger_critical [where p = p and h = h])

lemma hysteresis_run:
  assumes levels: "val (WARNING_LEVEL env) = 5 / 2" "val (CRITICAL_LEVEL env) = 17 / 10"
    and delta: "0 < val (WARNING_DELTA env)"
    and start: "healthFactor (previousSample s) = Some p" "\<not> warningAlreadySent s"
    and vals: "val a = 2" "val b = 2" "val c = 2" "val d = 3" "val e = 2"
  shows "triggers env [sample a n1, sample b n2, sample c n3, sample d n4, sample e n5] s =
      [Some WarningLevel, None, None, None, Some WarningLevel]"
proof -
  have w: "getStatusFromHealth env a = WARNING" "getStatusFromHealth env b = WARNING"
    "getStatusFromHealth env c = WARNING" "getStatusFromHealth env e = WARNING"
    using levels vals by (simp_all add: getStatusFromHealth_WARNING)
  have g: "getStatusFromHealth env d = GOOD"
    using levels vals by (simp add: getStatusFromHealth_GOOD)
  have "0 < val (minus_dec d c)"
    using vals by (intro minus_dec_pos) simp
  with delta have rise: "- val (WARNING_DELTA env) < val (minus_dec d c)"
    by simp
  have 1: "evaluate env (sample a n1) s =
      (Some WarningLevel, \<lparr>previousSample = sample a n1, warningAlreadySent = True\<rparr>)"
    using start w by (simp add: evaluate_warning [where p = p and h = a] sample_def)
  have 2: "evaluate env (sample b n2) \<lparr>previousSample = sample a n1, warningAlreadySent = True\<rparr> =
      (None, \<lparr>previousSample = sample b n2, warningAlreadySent = True\<rparr>)"
    using w by (simp add: evaluate_warning [where p = a and h = b] sample_def)
  have 3: "evaluate env (sample c n3) \<lparr>previousSample = sample b n2, warningAlreadySent = True\<rparr> =
      (None, \<lparr>previousSample = sample c n3, warningAlreadySent = True\<rparr>)"
    using w by (simp add: evaluate_warning [where p = b and h = c] sample_def)
  have 4: "evaluate env (sample d n4) \<lparr>previousSample = sample c n3, warningAlreadySent = True\<rparr> =
      (None, \<lparr>previousSample = sample d n4, warningAlreadySent = False\<rparr>)"
    using g rise by (simp add: evaluate_good [where p = c and h = d] sample_def)
  have 5: "evaluate env (sample e n5) \<lparr>previousSample = sample d n4, warningAlreadySent = False\<rparr> =
      (Some WarningLevel, \<lparr>previousSample = sample e n5, warningAlreadySent = True\<rparr>)"
    using w by (simp add: evaluate_warning [where p = d and h = e] sample_def)
  show ?thesis
    by (simp add: 1 2 3 4 5)
qed

text \<open>
  C1, as amended. In an evaluation where the stored and the new health factor are both
  present: when the new one classifies as WARNING and the latch is clear, the trigger
  is WarningLevel and the latch is set, whatever the stored health factor and the
  deltas are; when the latch is already set, there is no trigger and the latch stays
  set, again whatever the deltas are; when the new one classifies as GOOD, the latch is
  cleared. With the warning level 2.5, the critical level 1.7, a positive warning
  delta and the latch clear at the start, the health factors 2, 2, 2, 3, 2 give
  WarningLevel, nothing, nothing, nothing, WarningLevel.
\<close>

theorem warning_hysteresis:
  assumes "healthFactor (previousSample s) = Some p" and "healthFactor st = Some h"
  shows "(getStatusFromHealth env h = WARNING \<and> \<not> warningAlreadySent s \<longrightarrow>
            evaluate env st s =
              (Some WarningLevel, \<lparr>previousSample = st, warningAlreadySent = True\<rparr>))
       \<and> (getStatusFromHealth env h = WARNING \<and> warningAlreadySent s \<longrightarrow>
            evaluate env st s = (None, \<lparr>previousSample = st, warningAlreadySent = True\<rparr>))
       \<and> (getStatusFromHealth env h = GOOD \<longrightarrow>
            \<not> warningAlreadySent (snd (evaluate env st s)))
       \<and> (val (WARNING_LEVEL env) = 5 / 2 \<and> val (CRITICAL_LEVEL env) = 17 / 10
            \<and> 0 < val (WARNING_DELTA env) \<and> \<not> warningAlreadySent s
            \<and> val a = 2 \<and> val b = 2 \<and> val c = 2 \<and> val d = 3 \<and> val e = 2 \<longrightarrow>
            triggers env [sample a n1, sample b n2, sample c n3, sample d n4, sample e n5] s =
              [Some WarningLevel, None, None, None, Some WarningLevel])"
proof (intro conjI impI)
  assume "getStatusFromHealth env h = WARNING \<and> \<not> warningAlreadySent s"
  with assms show "evaluate env st s =
      (Some WarningLevel, \<lparr>previousSample = st, warningAlreadySent = True\<rparr>)"
    by (simp add: evaluate_warning [where p = p and h = h])
next
  assume "getStatusFromHealth env h = WARNING \<and> warningAlreadySent s"
  with assms show "evaluate env st s =
      (None, \<lparr>previousSample = st, warningAlreadySent = True\<rparr>)"
    by (simp add: evaluate_warning [where p = p and h = h])
next
  assume "getStatusFromHealth env h = GOOD"
  with assms show "\<not> warningAlreadySent (snd (evaluate env st s))"
    by (simp add: evaluate_good [where p = p and h = h])
next
  assume "val (WARNING_LEVEL env) = 5 / 2 \<and> val (CRITICAL_LEVEL env) = 17 / 10
            \<and> 0 < val (WARNING_DELTA env) \<and> \<not> warningAlreadySent s
            \<and> val a = 2 \<and> val b = 2 \<and> val c = 2 \<and> val d = 3 \<and> val e = 2"
  with assms(1) show "triggers env [sample a n1, sample b n2, sample c n3, sample d n4, sample e n5] s =
              [Some WarningLevel, None, None, None, Some WarningLevel]"
    by (intro hysteresis_run [where p = p]) simp_all
qed

lemmas decimal_eval =
  dec_def cmp_def gt_def greaterThanOrEqualTo_def scaled_def negated_def minus_dec_def
  finalise_def precision_def Let_def digit_count.simps

lemmas engine_eval =
  evaluate_def getAlertTrigger_def getStatusFromHealth_def default_environment_def
  initial_state_def sample_def absent_def

text \<open>
  C1 as stated says that every evaluation whose new health factor classifies as GOOD
  clears the latch. When the stored sample has no health factor, the decision returns
  before it classifies, and a latch that is set stays set: after the health factors
  2.0, absent, 3.0 the latch is still set, and a following 2.0 gives no warning.
\<close>

theorem good_after_absent_keeps_latch:
  "getStatusFromHealth default_environment (dec 3 0) = GOOD
   \<and> warningAlreadySent (snd (evaluate default_environment (sample (dec 3 0) (dec 0 0))
         \<lparr>previousSample = absent (dec 0 0), warningAlreadySent = True\<rparr>))
   \<and> triggers default_environment
         [sample (dec 20 (- 1)) (dec 0 0), absent (dec 0 0), sample (dec 3 0) (dec 0 0),
          sample (dec 20 (- 1)) (dec 0 0)] initial_state =
       [Some WarningLevel, Some NoLongerComputable, None, None]"
  by (simp add: engine_eval decimal_eval)

text \<open>The amended C1 at the initial state, under the default thresholds.\<close>

theorem warning_hysteresis_witness:
  "evaluate default_environment (sample (dec 20 (- 1)) (dec 0 0)) initial_state =
     (Some WarningLevel,
      \<lparr>previousSample = sample (dec 20 (- 1)) (dec 0 0), warningAlreadySent = True\<rparr>)
   \<and> evaluate default_environment (sample (dec 20 (- 1)) (dec 0 0))
       \<lparr>previousSample = sample (dec 20 (- 1)) (dec 0 0), warningAlreadySent = True\<rparr> =
     (None, \<lparr>previousSample = sample (dec 20 (- 1)) (dec 0 0), warningAlreadySent = True\<rparr>)
   \<and> \<not> warningAlreadySent (snd (evaluate default_environment (sample (dec 3 0) (dec 0 0))
       \<lparr>previousSample = sample (dec 20 (- 1)) (dec 0 0), warningAlreadySent = True\<rparr>))
   \<and> triggers default_environment
       [sample (dec 20 (- 1)) (dec 0 0), sample (dec 20 (- 1)) (dec 0 0),
        sample (dec 20 (- 1)) (dec 0 0), sample (dec 30 (- 1)) (dec 0 0),
        sample (dec 20 (- 1)) (dec 0 0)] initial_state =
     [Some WarningLevel, None, None, None, Some WarningLevel]"
proof -
  let ?two = "dec 20 (- 1)" and ?zero = "dec 0 0"
  let ?s1 = "\<lparr>previousSample = sample ?two ?zero, warningAlreadySent = True\<rparr>"
  have p0: "healthFactor (previousSample initial_state) = Some ?zero"
    by (simp add: initial_state_def dec_def)
  have p1: "healthFactor (previousSample ?s1) = Some ?two"
    by (simp add: sample_def)
  have c2: "healthFactor (sample ?two ?zero) = Some ?two"
    and c3: "healthFactor (sample (dec 3 0) ?zero) = Some (dec 3 0)"
    by (simp_all add: sample_def)
  have w: "getStatusFromHealth default_environment ?two = WARNING"
    and g: "getStatusFromHealth default_environment (dec 3 0) = GOOD"
    by (simp_all add: getStatusFromHealth_def default_environment_def decimal_eval)
  have v: "val (WARNING_LEVEL default_environment) = 5 / 2"
    "val (CRITICAL_LEVEL default_environment) = 17 / 10"
    "0 < val (WARNING_DELTA default_environment)"
    "val ?two = 2" "val (dec 30 (- 1)) = 3"
    by (simp_all add: default_environment_def val_def dec_def power_int_minus)
  have l: "\<not> warningAlreadySent initial_state" "warningAlreadySent ?s1"
    by (simp_all add: initial_state_def)
  note first = warning_hysteresis [OF p0 c2, where env = default_environment and a = ?two
      and b = ?two and c = ?two and d = "dec 30 (- 1)" and e = ?two
      and ?n1.0 = ?zero and ?n2.0 = ?zero and ?n3.0 = ?zero and ?n4.0 = ?zero and ?n5.0 = ?zero]
  note again = warning_hysteresis [OF p1 c2, where env = default_environment]
  note good = warning_hysteresis [OF p1 c3, where env = default_environment]
  have "evaluate default_environment (sample ?two ?zero) initial_state =
      (Some WarningLevel, ?s1)"
    using first w l(1) by blast
  moreover have "evaluate default_environment (sample ?two ?zero) ?s1 = (None, ?s1)"
    using again w l(2) by blast
  moreover have "\<not> warningAlreadySent (snd (evaluate default_environment
      (sample (dec 3 0) ?zero) ?s1))"
    using good g by blast
  moreover have "triggers default_environment
       [sample ?two ?zero, sample ?two ?zero, sample ?two ?zero, sample (dec 30 (- 1)) ?zero,
        sample ?two ?zero] initial_state =
     [Some WarningLevel, None, None, None, Some WarningLevel]"
    using first v l(1) by blast
  ultimately show ?thesis
    by (intro conjI)
qed

lemma evaluate_now_absent:
  "healthFactor st = None \<Longrightarrow> healthFactor (previousSample s) = Some p \<Longrightarrow>
   evaluate env st s =
     (Some NoLongerComputable, \<lparr>previousSample = st, warningAlreadySent = warningAlreadySent s\<rparr>)"
  by (simp add: evaluate_eq trigger_now_absent [where p = p])

lemma evaluate_previous_absent:
  "healthFactor (previousSample s) = None \<Longrightarrow>
   evaluate env st s = (None, \<lparr>previousSample = st, warningAlreadySent = warningAlreadySent s\<rparr>)"
  by (simp add: evaluate_eq trigger_previous_absent)

lemma critical_run:
  assumes "healthFactor (previousSample s) = Some p"
    and "\<forall>st \<in> set sts. \<exists>h. healthFactor st = Some h \<and> getStatusFromHealth env h = CRITICAL"
  shows "triggers env sts s = replicate (length sts) (Some CriticalLevel)"
  using assms
proof (induction sts arbitrary: s p)
  case Nil
  then show ?case by simp
next
  case (Cons st sts)
  from Cons.prems(2) obtain h where h: "healthFactor st = Some h"
    "getStatusFromHealth env h = CRITICAL"
    by auto
  let ?s' = "\<lparr>previousSample = st, warningAlreadySent = warningAlreadySent s\<rparr>"
  have step: "evaluate env st s = (Some CriticalLevel, ?s')"
    using Cons.prems(1) h by (rule evaluate_critical)
  have "triggers env sts ?s' = replicate (length sts) (Some CriticalLevel)"
    using Cons.prems(2) h(1) by (intro Cons.IH [where p = h]) simp_all
  with step show ?case by simp
qed

text \<open>
  C2. In an evaluation where the stored and the new health factor are both present and
  the new one classifies as CRITICAL (it is below the critical level, which is not
  above the warning level), the trigger is CriticalLevel, whatever the latch and the
  stored health factor are, and the latch is left as it was. A run of samples that
  all classify as CRITICAL fires CriticalLevel at every one of them.
\<close>

theorem critical_never_suppressed:
  assumes "healthFactor (previousSample s) = Some p"
  shows "(healthFactor st = Some h \<and> getStatusFromHealth env h = CRITICAL \<longrightarrow>
            evaluate env st s =
              (Some CriticalLevel,
               \<lparr>previousSample = st, warningAlreadySent = warningAlreadySent s\<rparr>))
       \<and> (healthFactor st = Some h \<and> val h < val (CRITICAL_LEVEL env)
            \<and> val (CRITICAL_LEVEL env) \<le> val (WARNING_LEVEL env) \<longrightarrow>
            fst (evaluate env st s) = Some CriticalLevel)
       \<and> ((\<forall>x \<in> set sts. \<exists>k. healthFactor x = Some k \<and> getStatusFromHealth env k = CRITICAL) \<longrightarrow>
            triggers env sts s = replicate (length sts) (Some CriticalLevel))
       \<and> (val (CRITICAL_LEVEL env) \<le> val (WARNING_LEVEL env)
            \<and> val a < val (CRITICAL_LEVEL env) \<and> val b < val (CRITICAL_LEVEL env)
            \<and> val c < val (CRITICAL_LEVEL env) \<longrightarrow>
            triggers env [sample a n1, sample b n2, sample c n3] s =
              [Some CriticalLevel, Some CriticalLevel, Some CriticalLevel])"
proof (intro conjI impI)
  assume "healthFactor st = Some h \<and> getStatusFromHealth env h = CRITICAL"
  with assms show "evaluate env st s =
      (Some CriticalLevel, \<lparr>previousSample = st, warningAlreadySent = warningAlreadySent s\<rparr>)"
    by (simp add: evaluate_critical [where p = p and h = h])
next
  assume a: "healthFactor st = Some h \<and> val h < val (CRITICAL_LEVEL env)
            \<and> val (CRITICAL_LEVEL env) \<le> val (WARNING_LEVEL env)"
  then have "getStatusFromHealth env h = CRITICAL"
    by (simp add: getStatusFromHealth_CRITICAL)
  with assms a show "fst (evaluate env st s) = Some CriticalLevel"
    by (simp add: evaluate_critical [where p = p and h = h])
next
  assume "\<forall>x \<in> set sts. \<exists>k. healthFactor x = Some k \<and> getStatusFromHealth env k = CRITICAL"
  with assms show "triggers env sts s = replicate (length sts) (Some CriticalLevel)"
    by (rule critical_run)
next
  assume a: "val (CRITICAL_LEVEL env) \<le> val (WARNING_LEVEL env)
            \<and> val a < val (CRITICAL_LEVEL env) \<and> val b < val (CRITICAL_LEVEL env)
            \<and> val c < val (CRITICAL_LEVEL env)"
  then have "getStatusFromHealth env a = CRITICAL" "getStatusFromHealth env b = CRITICAL"
    "getStatusFromHealth env c = CRITICAL"
    by (simp_all add: getStatusFromHealth_CRITICAL)
  then have "\<forall>x \<in> set [sample a n1, sample b n2, sample c n3].
      \<exists>k. healthFactor x = Some k \<and> getStatusFromHealth env k = CRITICAL"
    by (simp add: sample_def)
  with assms have "triggers env [sample a n1, sample b n2, sample c n3] s =
      replicate (length [sample a n1, sample b n2, sample c n3]) (Some CriticalLevel)"
    by (rule critical_run)
  then show "triggers env [sample a n1, sample b n2, sample c n3] s =
      [Some CriticalLevel, Some CriticalLevel, Some CriticalLevel]"
    by (simp add: numeral_3_eq_3)
qed

text \<open>C2 at the health factor 1.0 under the default thresholds, with the latch clear and set.\<close>

theorem critical_never_suppressed_witness:
  "evaluate default_environment (sample (dec 10 (- 1)) (dec 0 0)) initial_state =
     (Some CriticalLevel,
      \<lparr>previousSample = sample (dec 10 (- 1)) (dec 0 0), warningAlreadySent = False\<rparr>)
   \<and> fst (evaluate default_environment (sample (dec 10 (- 1)) (dec 0 0))
         \<lparr>previousSample = sample (dec 10 (- 1)) (dec 0 0), warningAlreadySent = True\<rparr>) =
     Some CriticalLevel
   \<and> triggers default_environment
       [sample (dec 10 (- 1)) (dec 0 0), sample (dec 10 (- 1)) (dec 0 0),
        sample (dec 10 (- 1)) (dec 0 0)] initial_state =
     [Some CriticalLevel, Some CriticalLevel, Some CriticalLevel]"
proof -
  let ?one = "dec 10 (- 1)" and ?zero = "dec 0 0"
  let ?s1 = "\<lparr>previousSample = sample ?one ?zero, warningAlreadySent = True\<rparr>"
  have p0: "healthFactor (previousSample initial_state) = Some ?zero"
    by (simp add: initial_state_def dec_def)
  have p1: "healthFactor (previousSample ?s1) = Some ?one"
    by (simp add: sample_def)
  have c: "healthFactor (sample ?one ?zero) = Some ?one"
    by (simp add: sample_def)
  have k: "getStatusFromHealth default_environment ?one = CRITICAL"
    by (simp add: getStatusFromHealth_def default_environment_def decimal_eval)
  have v: "val (CRITICAL_LEVEL default_environment) \<le> val (WARNING_LEVEL default_environment)"
    "val ?one < val (CRITICAL_LEVEL default_environment)"
    by (simp_all add: default_environment_def val_def dec_def power_int_minus)
  have l: "warningAlreadySent initial_state = False"
    by (simp add: initial_state_def)
  note first = critical_never_suppressed [OF p0, where env = default_environment
      and st = "sample ?one ?zero" and h = ?one and a = ?one and b = ?one and c = ?one
      and ?n1.0 = ?zero and ?n2.0 = ?zero and ?n3.0 = ?zero]
  note again = critical_never_suppressed [OF p1, where env = default_environment
      and st = "sample ?one ?zero" and h = ?one]
  have "evaluate default_environment (sample ?one ?zero) initial_state =
      (Some CriticalLevel,
       \<lparr>previousSample = sample ?one ?zero, warningAlreadySent = False\<rparr>)"
    using first c k l by simp
  moreover have "fst (evaluate default_environment (sample ?one ?zero) ?s1) =
      Some CriticalLevel"
    using again c v by blast
  moreover have "triggers default_environment
      [sample ?one ?zero, sample ?one ?zero, sample ?one ?zero] initial_state =
      [Some CriticalLevel, Some CriticalLevel, Some CriticalLevel]"
    using first v by blast
  ultimately show ?thesis
    by (intro conjI)
qed

text \<open>
  C5. When the new sample has no health factor and the stored one has, the trigger is
  NoLongerComputable, whatever the thresholds are. When neither has one, there is no
  trigger. Whenever the stored sample has none, the level and delta logic is skipped:
  no trigger, and the latch is left as it was. Two evaluations in a row without a
  health factor give no trigger at the second.
\<close>

theorem computability_transition:
  "(healthFactor st = None \<and> healthFactor (previousSample s) = Some p \<longrightarrow>
      evaluate env st s =
        (Some NoLongerComputable,
         \<lparr>previousSample = st, warningAlreadySent = warningAlreadySent s\<rparr>))
   \<and> (healthFactor st = None \<and> healthFactor (previousSample s) = None \<longrightarrow>
      evaluate env st s =
        (None, \<lparr>previousSample = st, warningAlreadySent = warningAlreadySent s\<rparr>))
   \<and> (healthFactor st = Some h \<and> healthFactor (previousSample s) = None \<longrightarrow>
      evaluate env st s =
        (None, \<lparr>previousSample = st, warningAlreadySent = warningAlreadySent s\<rparr>))
   \<and> (healthFactor a = None \<and> healthFactor b = None \<longrightarrow>
      triggers env [a, b] s = [fst (evaluate env a s), None])"
proof (intro conjI impI)
  assume "healthFactor st = None \<and> healthFactor (previousSample s) = Some p"
  then show "evaluate env st s =
      (Some NoLongerComputable, \<lparr>previousSample = st, warningAlreadySent = warningAlreadySent s\<rparr>)"
    by (simp add: evaluate_now_absent [where p = p])
next
  assume "healthFactor st = None \<and> healthFactor (previousSample s) = None"
  then show "evaluate env st s =
      (None, \<lparr>previousSample = st, warningAlreadySent = warningAlreadySent s\<rparr>)"
    by (simp add: evaluate_previous_absent)
next
  assume "healthFactor st = Some h \<and> healthFactor (previousSample s) = None"
  then show "evaluate env st s =
      (None, \<lparr>previousSample = st, warningAlreadySent = warningAlreadySent s\<rparr>)"
    by (simp add: evaluate_previous_absent)
next
  assume ab: "healthFactor a = None \<and> healthFactor b = None"
  obtain t s' where first: "evaluate env a s = (t, s')"
    by (cases "evaluate env a s")
  then have "previousSample s' = a"
    by (auto simp: evaluate_eq)
  with ab have "evaluate env b s' =
      (None, \<lparr>previousSample = b, warningAlreadySent = warningAlreadySent s'\<rparr>)"
    by (simp add: evaluate_previous_absent)
  with first show "triggers env [a, b] s = [fst (evaluate env a s), None]"
    by simp
qed

text \<open>C5 at the initial state and at a state whose stored sample has no health factor.\<close>

theorem computability_transition_witness:
  "evaluate default_environment (absent (dec 0 0)) initial_state =
     (Some NoLongerComputable,
      \<lparr>previousSample = absent (dec 0 0), warningAlreadySent = False\<rparr>)
   \<and> evaluate default_environment (absent (dec 1 0))
       \<lparr>previousSample = absent (dec 0 0), warningAlreadySent = True\<rparr> =
     (None, \<lparr>previousSample = absent (dec 1 0), warningAlreadySent = True\<rparr>)
   \<and> evaluate default_environment (sample (dec 3 0) (dec 1 0))
       \<lparr>previousSample = absent (dec 0 0), warningAlreadySent = True\<rparr> =
     (None, \<lparr>previousSample = sample (dec 3 0) (dec 1 0), warningAlreadySent = True\<rparr>)
   \<and> triggers default_environment [absent (dec 0 0), absent (dec 1 0)] initial_state =
     [Some NoLongerComputable, None]"
proof -
  let ?s = "\<lparr>previousSample = absent (dec 0 0), warningAlreadySent = True\<rparr>"
  have p0: "healthFactor (previousSample initial_state) = Some (dec 0 0)"
    "warningAlreadySent initial_state = False"
    by (simp_all add: initial_state_def dec_def)
  have p1: "healthFactor (previousSample ?s) = None" "warningAlreadySent ?s = True"
    "previousSample ?s = absent (dec 0 0)"
    by (simp_all add: absent_def)
  have c: "healthFactor (absent (dec 0 0)) = None" "healthFactor (absent (dec 1 0)) = None"
    "healthFactor (sample (dec 3 0) (dec 1 0)) = Some (dec 3 0)"
    by (simp_all add: absent_def sample_def)
  note t0 = computability_transition [where st = "absent (dec 0 0)" and s = initial_state
      and p = "dec 0 0" and env = default_environment and a = "absent (dec 0 0)"
      and b = "absent (dec 1 0)"]
  note t1 = computability_transition [where st = "absent (dec 1 0)" and s = ?s
      and env = default_environment]
  note t2 = computability_transition [where st = "sample (dec 3 0) (dec 1 0)" and s = ?s
      and h = "dec 3 0" and env = default_environment]
  have e0: "evaluate default_environment (absent (dec 0 0)) initial_state =
     (Some NoLongerComputable,
      \<lparr>previousSample = absent (dec 0 0), warningAlreadySent = False\<rparr>)"
    using t0 p0 c by simp
  moreover have "evaluate default_environment (absent (dec 1 0)) ?s =
     (None, \<lparr>previousSample = absent (dec 1 0), warningAlreadySent = True\<rparr>)"
    using t1 p1 c by simp
  moreover have "evaluate default_environment (sample (dec 3 0) (dec 1 0)) ?s =
     (None, \<lparr>previousSample = sample (dec 3 0) (dec 1 0), warningAlreadySent = True\<rparr>)"
    using t2 p1 c by simp
  moreover have "triggers default_environment [absent (dec 0 0), absent (dec 1 0)] initial_state =
     [fst (evaluate default_environment (absent (dec 0 0)) initial_state), None]"
    using t0 c by blast
  ultimately show ?thesis
    by simp
qed


section \<open>The stored sample\<close>

lemma trigger_not_empty:
  "fst (getAlertTrigger env ctx w) = Some t \<Longrightarrow> t \<noteq> []"
  by (auto simp: getAlertTrigger_def Let_def NoLongerComputable_def CriticalLevel_def
      WarningLevel_def WarningDelta_def CriticalDelta_def
      split: option.splits Status.splits if_splits)

lemma getAlertMessage_state:
  "snd (getAlertMessage env (Inr st) s) = snd (evaluate env st s)"
  by (simp add: getAlertMessage_def split: prod.splits option.splits)

lemma getAlertMessage_none:
  "fst (getAlertMessage env (Inr st) s) = Inr None \<longleftrightarrow> fst (evaluate env st s) = None"
proof -
  obtain t s' where e: "evaluate env st s = (t, s')"
    by (cases "evaluate env st s")
  show ?thesis
  proof (cases t)
    case None
    with e show ?thesis
      by (simp add: getAlertMessage_def)
  next
    case (Some x)
    with e have "fst (getAlertTrigger env \<lparr>previousStatus = previousSample s, status = st\<rparr>
        (warningAlreadySent s)) = Some x"
      by (simp add: evaluate_eq)
    then have "x \<noteq> []"
      by (rule trigger_not_empty)
    with e Some show ?thesis
      by (simp add: getAlertMessage_def)
  qed
qed

lemma final_state_snoc:
  "final_state env (sts @ [st]) s = snd (evaluate env st (final_state env sts s))"
  by (simp add: final_state_def)

lemma final_state_previous:
  "sts \<noteq> [] \<Longrightarrow> previousSample (final_state env sts s) = last sts"
proof (induction sts rule: rev_induct)
  case Nil
  then show ?case by simp
next
  case (snoc st sts)
  show ?case
    by (simp add: final_state_snoc evaluate_eq)
qed

text \<open>
  C6. A call of \<^verbatim>\<open>getAlertMessage\<close> whose fetch succeeds leaves the state that
  the evaluation leaves, and returns no message exactly when the evaluation gives no
  trigger; a call whose fetch fails leaves the state as it was. After an evaluation the
  stored sample is the sample just evaluated, whether a trigger fired or not; the
  trigger and the new latch are those of the decision taken against the sample stored
  before the call; and the next evaluation is decided against the sample just stored
  and the latch just left. After any run of evaluations the stored sample is the last
  sample of the run.
\<close>

theorem baseline_advances:
  "snd (getAlertMessage env (Inr st) s) = snd (evaluate env st s)
   \<and> (fst (getAlertMessage env (Inr st) s) = Inr None \<longleftrightarrow> fst (evaluate env st s) = None)
   \<and> getAlertMessage env (Inl err) s = (Inl err, s)
   \<and> previousSample (snd (evaluate env st s)) = st
   \<and> fst (evaluate env st s) =
       fst (getAlertTrigger env \<lparr>previousStatus = previousSample s, status = st\<rparr>
             (warningAlreadySent s))
   \<and> warningAlreadySent (snd (evaluate env st s)) =
       snd (getAlertTrigger env \<lparr>previousStatus = previousSample s, status = st\<rparr>
             (warningAlreadySent s))
   \<and> evaluate env next (snd (evaluate env st s)) =
       (fst (getAlertTrigger env \<lparr>previousStatus = st, status = next\<rparr>
              (warningAlreadySent (snd (evaluate env st s)))),
        \<lparr>previousSample = next,
         warningAlreadySent =
           snd (getAlertTrigger env \<lparr>previousStatus = st, status = next\<rparr>
                 (warningAlreadySent (snd (evaluate env st s))))\<rparr>)
   \<and> (sts \<noteq> [] \<longrightarrow> previousSample (final_state env sts s) = last sts)"
proof -
  have "evaluate env next (snd (evaluate env st s)) =
       (fst (getAlertTrigger env \<lparr>previousStatus = st, status = next\<rparr>
              (warningAlreadySent (snd (evaluate env st s)))),
        \<lparr>previousSample = next,
         warningAlreadySent =
           snd (getAlertTrigger env \<lparr>previousStatus = st, status = next\<rparr>
                 (warningAlreadySent (snd (evaluate env st s))))\<rparr>)"
    by (simp add: evaluate_eq [of env "next"] evaluate_eq [of env st])
  moreover have "getAlertMessage env (Inl err) s = (Inl err, s)"
    by (simp add: getAlertMessage_def)
  moreover have "previousSample (snd (evaluate env st s)) = st"
    by (simp add: evaluate_eq)
  ultimately show ?thesis
    using getAlertMessage_state [of env st s] getAlertMessage_none [of env st s]
      final_state_previous [of sts env s]
    by (simp add: evaluate_eq [of env st s])
qed


text \<open>C6 on a run that ends with a sample without a health factor.\<close>

theorem baseline_advances_witness:
  "previousSample
     (final_state default_environment [sample (dec 20 (- 1)) (dec 0 0), absent (dec 1 0)]
        initial_state) = absent (dec 1 0)"
  using baseline_advances [where sts = "[sample (dec 20 (- 1)) (dec 0 0), absent (dec 1 0)]"
      and env = default_environment and s = initial_state]
  by simp


section \<open>The status command\<close>

lemma status_command_state: "snd (status_command env answer s) = s"
  by (simp add: status_command_def split: sum.splits)

lemma status_command_text:
  "fst (status_command env answer s) = fst (status_command env answer s')"
  by (simp add: status_command_def split: sum.splits)

lemma run_events_ticks:
  "run_events env events s = run_events env (filter is_tick events) s"
proof (induction events arbitrary: s)
  case Nil
  show ?case by simp
next
  case (Cons ev events)
  show ?case
  proof (cases ev)
    case (Tick io)
    with Cons show ?thesis
      by (simp add: run_events_def)
  next
    case (StatusCommand answer)
    with Cons show ?thesis
      by (simp add: run_events_def status_command_state)
  qed
qed

text \<open>
  C8. The status command fetches and formats: whatever the fetch answers, a sample or a
  failure, the engine state after the command is the engine state before it, and the
  text the command sends does not depend on the engine state. So the engine state
  after any sequence of ticks and status commands is the state that the ticks alone
  leave.
\<close>

theorem status_frame:
  "snd (status_command env answer s) = s
   \<and> fst (status_command env answer s) = fst (status_command env answer s')
   \<and> run_events env events s = run_events env (filter is_tick events) s"
proof -
  have "fst (status_command env answer s) = fst (status_command env answer s')"
    by (rule status_command_text)
  moreover have "run_events env events s = run_events env (filter is_tick events) s"
    by (rule run_events_ticks)
  ultimately show ?thesis
    by (simp add: status_command_state)
qed


section \<open>The delta bands\<close>

text \<open>
  C4 as stated takes the delta in exact decimal arithmetic. The program takes it from
  \<^verbatim>\<open>minus\<close>, which rounds to 20 significant digits. Under the default
  thresholds, with 3.5 stored and 3.0000000000000000000001 new (GOOD), the exact delta
  is above minus the warning delta 0.5, so the claim says no trigger; the rounded delta
  is -0.5 and the program fires WarningDelta.
\<close>

theorem rounded_delta_fires_warning:
  "getStatusFromHealth default_environment (dec 30000000000000000000001 (- 22)) = GOOD
   \<and> - val (WARNING_DELTA default_environment)
       < val (dec 30000000000000000000001 (- 22)) - val (dec 35 (- 1))
   \<and> evaluate default_environment (sample (dec 30000000000000000000001 (- 22)) (dec 0 0))
       \<lparr>previousSample = sample (dec 35 (- 1)) (dec 0 0), warningAlreadySent = False\<rparr> =
     (Some WarningDelta,
      \<lparr>previousSample = sample (dec 30000000000000000000001 (- 22)) (dec 0 0),
       warningAlreadySent = False\<rparr>)"
proof -
  have "getStatusFromHealth default_environment (dec 30000000000000000000001 (- 22)) = GOOD"
    by (simp add: getStatusFromHealth_def default_environment_def decimal_eval)
  moreover have "- val (WARNING_DELTA default_environment)
       < val (dec 30000000000000000000001 (- 22)) - val (dec 35 (- 1))"
    by (simp add: default_environment_def val_def dec_def power_int_minus)
  moreover have "evaluate default_environment
       (sample (dec 30000000000000000000001 (- 22)) (dec 0 0))
       \<lparr>previousSample = sample (dec 35 (- 1)) (dec 0 0), warningAlreadySent = False\<rparr> =
     (Some WarningDelta,
      \<lparr>previousSample = sample (dec 30000000000000000000001 (- 22)) (dec 0 0),
       warningAlreadySent = False\<rparr>)"
    by (simp add: engine_eval decimal_eval)
  ultimately show ?thesis
    by (intro conjI)
qed

lemma delta_examples:
  "val (minus_dec (dec 22 (- 1)) (dec 3 0)) = - (4 / 5)"
  "val (minus_dec (dec 19 (- 1)) (dec 3 0)) = - (11 / 10)"
  by (simp_all add: decimal_eval val_def power_int_minus)

text \<open>
  C4, as amended. In an evaluation that reaches the delta check (both health factors
  present, the new one GOOD; the latch is then cleared), let delta be the value that
  \<^verbatim>\<open>minus\<close> returns for the new and the stored health factor: the difference
  rounded to 20 significant digits, which is the exact difference whenever that has at
  most 20 digits. If delta is above minus the warning delta there is no trigger; if it
  is above minus the critical delta and at most minus the warning delta the trigger is
  WarningDelta; if it is at most minus the critical delta, and the warning delta is at
  most the critical delta, the trigger is CriticalDelta. With the warning delta 0.5
  and the critical delta 1, 3.0 followed by 2.2 fires WarningDelta and 3.0 followed by
  1.9 fires CriticalDelta, where these classify as GOOD.
\<close>

theorem delta_bands:
  assumes "healthFactor (previousSample s) = Some p" and "healthFactor st = Some h"
    and "getStatusFromHealth env h = GOOD"
  shows "(- val (WARNING_DELTA env) < val (minus_dec h p) \<longrightarrow>
            evaluate env st s = (None, \<lparr>previousSample = st, warningAlreadySent = False\<rparr>))
       \<and> (- val (CRITITAL_DELTA env) < val (minus_dec h p)
            \<and> val (minus_dec h p) \<le> - val (WARNING_DELTA env) \<longrightarrow>
            evaluate env st s =
              (Some WarningDelta, \<lparr>previousSample = st, warningAlreadySent = False\<rparr>))
       \<and> (val (minus_dec h p) \<le> - val (CRITITAL_DELTA env)
            \<and> val (WARNING_DELTA env) \<le> val (CRITITAL_DELTA env) \<longrightarrow>
            evaluate env st s =
              (Some CriticalDelta, \<lparr>previousSample = st, warningAlreadySent = False\<rparr>))
       \<and> (digit_count \<bar>scaled (min (exponent h) (exponent p)) h
                         - scaled (min (exponent h) (exponent p)) p\<bar> \<le> precision \<longrightarrow>
            val (minus_dec h p) = val h - val p)
       \<and> (val (WARNING_DELTA env) = 1 / 2 \<and> val (CRITITAL_DELTA env) = 1
            \<and> getStatusFromHealth env (dec 22 (- 1)) = GOOD \<longrightarrow>
            fst (evaluate env (sample (dec 22 (- 1)) n)
                  \<lparr>previousSample = sample (dec 3 0) m, warningAlreadySent = w\<rparr>) =
              Some WarningDelta)
       \<and> (val (WARNING_DELTA env) = 1 / 2 \<and> val (CRITITAL_DELTA env) = 1
            \<and> getStatusFromHealth env (dec 19 (- 1)) = GOOD \<longrightarrow>
            fst (evaluate env (sample (dec 19 (- 1)) n)
                  \<lparr>previousSample = sample (dec 3 0) m, warningAlreadySent = w\<rparr>) =
              Some CriticalDelta)"
proof (intro conjI impI)
  assume "- val (WARNING_DELTA env) < val (minus_dec h p)"
  with assms show "evaluate env st s =
      (None, \<lparr>previousSample = st, warningAlreadySent = False\<rparr>)"
    by (simp add: evaluate_good [where p = p and h = h])
next
  assume "- val (CRITITAL_DELTA env) < val (minus_dec h p)
      \<and> val (minus_dec h p) \<le> - val (WARNING_DELTA env)"
  with assms show "evaluate env st s =
      (Some WarningDelta, \<lparr>previousSample = st, warningAlreadySent = False\<rparr>)"
    by (simp add: evaluate_good [where p = p and h = h] not_less)
next
  assume a: "val (minus_dec h p) \<le> - val (CRITITAL_DELTA env)
      \<and> val (WARNING_DELTA env) \<le> val (CRITITAL_DELTA env)"
  then have "\<not> - val (WARNING_DELTA env) < val (minus_dec h p)"
    and "\<not> - val (CRITITAL_DELTA env) < val (minus_dec h p)"
    by simp_all
  with assms show "evaluate env st s =
      (Some CriticalDelta, \<lparr>previousSample = st, warningAlreadySent = False\<rparr>)"
    by (simp add: evaluate_good [where p = p and h = h])
next
  assume "digit_count \<bar>scaled (min (exponent h) (exponent p)) h
      - scaled (min (exponent h) (exponent p)) p\<bar> \<le> precision"
  then show "val (minus_dec h p) = val h - val p"
    by (rule minus_exact)
next
  assume a: "val (WARNING_DELTA env) = 1 / 2 \<and> val (CRITITAL_DELTA env) = 1
      \<and> getStatusFromHealth env (dec 22 (- 1)) = GOOD"
  have "evaluate env (sample (dec 22 (- 1)) n)
      \<lparr>previousSample = sample (dec 3 0) m, warningAlreadySent = w\<rparr> =
      (Some WarningDelta,
       \<lparr>previousSample = sample (dec 22 (- 1)) n, warningAlreadySent = False\<rparr>)"
    using a
    by (simp add: evaluate_good [where p = "dec 3 0" and h = "dec 22 (- 1)"] sample_def
        delta_examples)
  then show "fst (evaluate env (sample (dec 22 (- 1)) n)
      \<lparr>previousSample = sample (dec 3 0) m, warningAlreadySent = w\<rparr>) = Some WarningDelta"
    by simp
next
  assume a: "val (WARNING_DELTA env) = 1 / 2 \<and> val (CRITITAL_DELTA env) = 1
      \<and> getStatusFromHealth env (dec 19 (- 1)) = GOOD"
  have "evaluate env (sample (dec 19 (- 1)) n)
      \<lparr>previousSample = sample (dec 3 0) m, warningAlreadySent = w\<rparr> =
      (Some CriticalDelta,
       \<lparr>previousSample = sample (dec 19 (- 1)) n, warningAlreadySent = False\<rparr>)"
    using a
    by (simp add: evaluate_good [where p = "dec 3 0" and h = "dec 19 (- 1)"] sample_def
        delta_examples)
  then show "fst (evaluate env (sample (dec 19 (- 1)) n)
      \<lparr>previousSample = sample (dec 3 0) m, warningAlreadySent = w\<rparr>) = Some CriticalDelta"
    by simp
qed

text \<open>The amended C4 under thresholds for which 1.9 and 2.2 are GOOD.\<close>

theorem delta_bands_witness:
  "evaluate low_levels (sample (dec 3 0) (dec 0 0))
     \<lparr>previousSample = sample (dec 3 0) (dec 0 0), warningAlreadySent = True\<rparr> =
     (None, \<lparr>previousSample = sample (dec 3 0) (dec 0 0), warningAlreadySent = False\<rparr>)
   \<and> evaluate low_levels (sample (dec 22 (- 1)) (dec 0 0))
     \<lparr>previousSample = sample (dec 3 0) (dec 0 0), warningAlreadySent = True\<rparr> =
     (Some WarningDelta,
      \<lparr>previousSample = sample (dec 22 (- 1)) (dec 0 0), warningAlreadySent = False\<rparr>)
   \<and> evaluate low_levels (sample (dec 19 (- 1)) (dec 0 0))
     \<lparr>previousSample = sample (dec 3 0) (dec 0 0), warningAlreadySent = True\<rparr> =
     (Some CriticalDelta,
      \<lparr>previousSample = sample (dec 19 (- 1)) (dec 0 0), warningAlreadySent = False\<rparr>)
   \<and> val (minus_dec (dec 22 (- 1)) (dec 3 0)) = val (dec 22 (- 1)) - val (dec 3 0)
   \<and> fst (evaluate low_levels (sample (dec 22 (- 1)) (dec 7 0))
         \<lparr>previousSample = sample (dec 3 0) (dec 8 0), warningAlreadySent = False\<rparr>) =
     Some WarningDelta
   \<and> fst (evaluate low_levels (sample (dec 19 (- 1)) (dec 7 0))
         \<lparr>previousSample = sample (dec 3 0) (dec 8 0), warningAlreadySent = False\<rparr>) =
     Some CriticalDelta"
proof -
  let ?s = "\<lparr>previousSample = sample (dec 3 0) (dec 0 0), warningAlreadySent = True\<rparr>"
  have p: "healthFactor (previousSample ?s) = Some (dec 3 0)"
    by (simp add: sample_def)
  have c: "healthFactor (sample (dec 3 0) (dec 0 0)) = Some (dec 3 0)"
    "healthFactor (sample (dec 22 (- 1)) (dec 0 0)) = Some (dec 22 (- 1))"
    "healthFactor (sample (dec 19 (- 1)) (dec 0 0)) = Some (dec 19 (- 1))"
    by (simp_all add: sample_def)
  have g: "getStatusFromHealth low_levels (dec 3 0) = GOOD"
    "getStatusFromHealth low_levels (dec 22 (- 1)) = GOOD"
    "getStatusFromHealth low_levels (dec 19 (- 1)) = GOOD"
    by (simp_all add: getStatusFromHealth_def low_levels_def default_environment_def
        decimal_eval)
  have d: "val (WARNING_DELTA low_levels) = 1 / 2" "val (CRITITAL_DELTA low_levels) = 1"
    by (simp_all add: low_levels_def default_environment_def val_def power_int_minus)
  have m: "val (minus_dec (dec 3 0) (dec 3 0)) = 0"
    by (simp add: decimal_eval val_def)
  have n: "digit_count \<bar>scaled (min (exponent (dec 22 (- 1))) (exponent (dec 3 0))) (dec 22 (- 1))
      - scaled (min (exponent (dec 22 (- 1))) (exponent (dec 3 0))) (dec 3 0)\<bar> \<le> precision"
    by (simp add: decimal_eval)
  note same = delta_bands [OF p c(1) g(1)]
  note warn = delta_bands [OF p c(2) g(2), where n = "dec 7 0" and m = "dec 8 0" and w = False]
  note crit = delta_bands [OF p c(3) g(3)]
  have "evaluate low_levels (sample (dec 3 0) (dec 0 0)) ?s =
      (None, \<lparr>previousSample = sample (dec 3 0) (dec 0 0), warningAlreadySent = False\<rparr>)"
    using same d m by simp
  moreover have "evaluate low_levels (sample (dec 22 (- 1)) (dec 0 0)) ?s =
      (Some WarningDelta,
       \<lparr>previousSample = sample (dec 22 (- 1)) (dec 0 0), warningAlreadySent = False\<rparr>)"
    using warn d delta_examples(1) by simp
  moreover have "evaluate low_levels (sample (dec 19 (- 1)) (dec 0 0)) ?s =
      (Some CriticalDelta,
       \<lparr>previousSample = sample (dec 19 (- 1)) (dec 0 0), warningAlreadySent = False\<rparr>)"
    using crit d delta_examples(2) by simp
  moreover have "val (minus_dec (dec 22 (- 1)) (dec 3 0)) = val (dec 22 (- 1)) - val (dec 3 0)"
    using warn n by blast
  moreover have "fst (evaluate low_levels (sample (dec 22 (- 1)) (dec 7 0))
         \<lparr>previousSample = sample (dec 3 0) (dec 8 0), warningAlreadySent = False\<rparr>) =
     Some WarningDelta"
    using warn d g(2) by blast
  moreover have "fst (evaluate low_levels (sample (dec 19 (- 1)) (dec 7 0))
         \<lparr>previousSample = sample (dec 3 0) (dec 8 0), warningAlreadySent = False\<rparr>) =
     Some CriticalDelta"
    using warn d g(3) by blast
  ultimately show ?thesis
    by (intro conjI)
qed


section \<open>The first tick\<close>

lemma initial_previous:
  "healthFactor (previousSample initial_state) = Some (dec 0 0)"
  "warningAlreadySent initial_state = False"
  by (simp_all add: initial_state_def dec_def)

text \<open>
  C10. The initial state stores the health factor zero, which is present. So a first
  sample without a health factor fires NoLongerComputable; a first sample that
  classifies as GOOD has its delta taken against zero; and with a positive warning
  level and a warning delta that is not negative, such a sample gives no trigger.
\<close>

theorem first_tick:
  "healthFactor (previousSample initial_state) = Some (dec 0 0)
   \<and> val (dec 0 0) = 0
   \<and> (healthFactor st = None \<longrightarrow>
        evaluate env st initial_state =
          (Some NoLongerComputable, \<lparr>previousSample = st, warningAlreadySent = False\<rparr>))
   \<and> (healthFactor st = Some h \<and> getStatusFromHealth env h = GOOD \<longrightarrow>
        evaluate env st initial_state =
          (if - val (WARNING_DELTA env) < val (minus_dec h (dec 0 0)) then None
           else if - val (CRITITAL_DELTA env) < val (minus_dec h (dec 0 0))
           then Some WarningDelta else Some CriticalDelta,
           \<lparr>previousSample = st, warningAlreadySent = False\<rparr>))
   \<and> (healthFactor st = Some h \<and> getStatusFromHealth env h = GOOD
        \<and> 0 < val (WARNING_LEVEL env) \<and> 0 \<le> val (WARNING_DELTA env) \<longrightarrow>
        evaluate env st initial_state =
          (None, \<lparr>previousSample = st, warningAlreadySent = False\<rparr>))"
proof (intro conjI impI)
  show "healthFactor (previousSample initial_state) = Some (dec 0 0)"
    by (rule initial_previous)
  show "val (dec 0 0) = 0"
    by (simp add: val_def dec_def)
next
  assume "healthFactor st = None"
  then show "evaluate env st initial_state =
      (Some NoLongerComputable, \<lparr>previousSample = st, warningAlreadySent = False\<rparr>)"
    by (simp add: evaluate_now_absent [where p = "dec 0 0"] initial_previous)
next
  assume "healthFactor st = Some h \<and> getStatusFromHealth env h = GOOD"
  then show "evaluate env st initial_state =
      (if - val (WARNING_DELTA env) < val (minus_dec h (dec 0 0)) then None
       else if - val (CRITITAL_DELTA env) < val (minus_dec h (dec 0 0))
       then Some WarningDelta else Some CriticalDelta,
       \<lparr>previousSample = st, warningAlreadySent = False\<rparr>)"
    by (simp add: evaluate_good [where p = "dec 0 0" and h = h] initial_previous)
next
  assume a: "healthFactor st = Some h \<and> getStatusFromHealth env h = GOOD
      \<and> 0 < val (WARNING_LEVEL env) \<and> 0 \<le> val (WARNING_DELTA env)"
  then have "val (WARNING_LEVEL env) \<le> val h"
    by (simp add: getStatusFromHealth_GOOD)
  moreover have "val (dec 0 0) = 0"
    by (simp add: val_def dec_def)
  ultimately have "val (dec 0 0) < val h"
    using a by linarith
  then have "0 < val (minus_dec h (dec 0 0))"
    by (rule minus_dec_pos)
  with a have "- val (WARNING_DELTA env) < val (minus_dec h (dec 0 0))"
    by simp
  with a show "evaluate env st initial_state =
      (None, \<lparr>previousSample = st, warningAlreadySent = False\<rparr>)"
    by (simp add: evaluate_good [where p = "dec 0 0" and h = h] initial_previous)
qed

text \<open>C10 under the default thresholds.\<close>

theorem first_tick_witness:
  "evaluate default_environment (absent (dec 1 0)) initial_state =
     (Some NoLongerComputable, \<lparr>previousSample = absent (dec 1 0), warningAlreadySent = False\<rparr>)
   \<and> evaluate default_environment (sample (dec 3 0) (dec 1 0)) initial_state =
     (None, \<lparr>previousSample = sample (dec 3 0) (dec 1 0), warningAlreadySent = False\<rparr>)"
proof -
  have c: "healthFactor (absent (dec 1 0)) = None"
    "healthFactor (sample (dec 3 0) (dec 1 0)) = Some (dec 3 0)"
    by (simp_all add: absent_def sample_def)
  have g: "getStatusFromHealth default_environment (dec 3 0) = GOOD"
    by (simp add: getStatusFromHealth_def default_environment_def decimal_eval)
  have v: "0 < val (WARNING_LEVEL default_environment)"
    "0 \<le> val (WARNING_DELTA default_environment)"
    by (simp_all add: default_environment_def val_def power_int_minus)
  have "evaluate default_environment (absent (dec 1 0)) initial_state =
     (Some NoLongerComputable, \<lparr>previousSample = absent (dec 1 0), warningAlreadySent = False\<rparr>)"
    using first_tick [where st = "absent (dec 1 0)" and env = default_environment] c(1)
    by blast
  moreover have "evaluate default_environment (sample (dec 3 0) (dec 1 0)) initial_state =
     (None, \<lparr>previousSample = sample (dec 3 0) (dec 1 0), warningAlreadySent = False\<rparr>)"
    using first_tick [where st = "sample (dec 3 0) (dec 1 0)" and h = "dec 3 0"
        and env = default_environment] c(2) g v
    by blast
  ultimately show ?thesis
    by (intro conjI)
qed


section \<open>The poll loop\<close>

text \<open>
  A tick whose fetch fails delivers the error message, and a tick whose error message
  is delivered, or is not needed, logs nothing and schedules the next tick.
\<close>

lemma checkHealth_fetch_failed:
  "fetched io = Inl e \<Longrightarrow> recoveryDelivery io = None \<Longrightarrow>
   checkHealth env io s =
     \<lparr>engine = s, delivered = [getErrorMessage e ''check''], warned = [], rescheduled = True\<rparr>"
  by (simp add: checkHealth_def getAlertMessage_def)

lemma checkHealth_recovered:
  "recoveryDelivery io = None \<Longrightarrow>
   rescheduled (checkHealth env io s) \<and> warned (checkHealth env io s) = []"
  by (simp add: checkHealth_def Let_def split: prod.splits sum.splits option.splits)

text \<open>
  C7 says that when the delivery of the error message fails too, the failure is only
  logged and the next tick is still scheduled. In the program that delivery is awaited
  inside the \<^verbatim>\<open>catch\<close> block, ahead of \<^verbatim>\<open>setTimeout\<close>: when it throws,
  the failure is logged by the caller and no further tick runs. This holds when the
  fetch failed, and when the delivery of an alert failed.
\<close>

theorem failed_recovery_stops_loop:
  "\<not> rescheduled (checkHealth default_environment fetch_fails initial_state)
   \<and> warned (checkHealth default_environment fetch_fails initial_state) = [''send failed'']
   \<and> \<not> rescheduled (checkHealth default_environment delivery_fails initial_state)
   \<and> length (startCheckingHealth default_environment [fetch_fails, quiet_tick, quiet_tick]
        initial_state) = 1
   \<and> length (startCheckingHealth default_environment [quiet_tick, delivery_fails, quiet_tick]
        initial_state) = 2"
proof -
  have f: "checkHealth default_environment fetch_fails s =
      \<lparr>engine = s, delivered = [], warned = [''send failed''], rescheduled = False\<rparr>" for s
    by (simp add: checkHealth_def getAlertMessage_def fetch_fails_def)
  have k: "getStatusFromHealth default_environment (dec 1 0) = CRITICAL"
    by (simp add: getStatusFromHealth_def default_environment_def decimal_eval)
  have d: "\<not> rescheduled (checkHealth default_environment delivery_fails s)"
    if "healthFactor (previousSample s) = Some p" for s p
    using that k
    by (simp add: checkHealth_def getAlertMessage_def delivery_fails_def
        evaluate_critical [where p = p and h = "dec 1 0"] sample_def CriticalLevel_def)
  have q: "checkHealth default_environment quiet_tick initial_state =
      \<lparr>engine = \<lparr>previousSample = sample (dec 3 0) (dec 0 0), warningAlreadySent = False\<rparr>,
       delivered = [], warned = [], rescheduled = True\<rparr>"
    by (simp add: checkHealth_def getAlertMessage_def quiet_tick_def engine_eval decimal_eval)
  have "\<not> rescheduled (checkHealth default_environment delivery_fails
      \<lparr>previousSample = sample (dec 3 0) (dec 0 0), warningAlreadySent = False\<rparr>)"
    by (rule d [where p = "dec 3 0"]) (simp add: sample_def)
  with q have "length (startCheckingHealth default_environment
      [quiet_tick, delivery_fails, quiet_tick] initial_state) = 2"
    by simp
  moreover have "\<not> rescheduled (checkHealth default_environment delivery_fails initial_state)"
    by (rule d [where p = "dec 0 0"]) (rule initial_previous)
  ultimately show ?thesis
    by (simp add: f)
qed

section \<open>The status text\<close>

lemma digit_char_not_dot:
  assumes "d < 10"
  shows "digit_char d \<noteq> CHR ''.''" and "CHR ''.'' \<noteq> digit_char d"
proof -
  from assms have "nat d < length ''0123456789''"
    by simp
  then have "digit_char d \<in> set ''0123456789''"
    unfolding digit_char_def by (rule nth_mem)
  then show "digit_char d \<noteq> CHR ''.''" and "CHR ''.'' \<noteq> digit_char d"
    by auto
qed

lemma digits_str_no_dot: "CHR ''.'' \<notin> set (digits_str n)"
proof (induction n rule: digits_str.induct)
  case (1 n)
  show ?case
  proof (cases "n < 10")
    case True
    then show ?thesis
      by (simp add: digits_str.simps [of n] digit_char_not_dot)
  next
    case False
    moreover have "CHR ''.'' \<noteq> digit_char (n mod 10)"
      by (rule digit_char_not_dot) simp
    ultimately show ?thesis
      using 1 by (simp add: digits_str.simps [of n])
  qed
qed

lemma fraction_digits_no_dot: "CHR ''.'' \<notin> set (fraction_digits dp n)"
proof -
  have "CHR ''.'' \<noteq> digit_char (n div 10 ^ i mod 10)" for i
    by (rule digit_char_not_dot) simp
  then show ?thesis
    unfolding fraction_digits_def by (simp add: image_iff)
qed

lemma length_fraction_digits: "length (fraction_digits dp n) = dp"
  by (simp add: fraction_digits_def)

lemma replace_first_split:
  "c \<notin> set a \<Longrightarrow> replace_first c r (a @ c # b) = a @ r @ b"
  by (induction a) auto

lemma toFixed_2_shape:
  "\<exists>whole fraction.
     toFixed 2 d = whole @ ''.'' @ fraction
     \<and> CHR ''.'' \<notin> set whole \<and> CHR ''.'' \<notin> set fraction \<and> length fraction = 2"
proof -
  define c where "c = coefficient d"
  define s where "s = exponent d + 2"
  define n where "n = (if 0 \<le> s then \<bar>c\<bar> * 10 ^ nat s
      else (\<bar>c\<bar> + 5 * 10 ^ (nat (- s) - 1)) div 10 ^ nat (- s))"
  define whole where "whole = (if c < 0 then ''-'' else []) @ digits_str (n div 10 ^ 2)"
  have "toFixed 2 d = whole @ ''.'' @ fraction_digits 2 n"
    by (simp add: toFixed_def Let_def whole_def n_def s_def c_def)
  moreover have "CHR ''.'' \<notin> set whole"
    by (simp add: whole_def digits_str_no_dot)
  ultimately show ?thesis
    using fraction_digits_no_dot [of 2 n] length_fraction_digits [of 2 n] by blast
qed

lemma fixed2_shape:
  "\<exists>whole fraction.
     toFixed 2 d = whole @ ''.'' @ fraction
     \<and> fixed2 d = whole @ escaped_dot @ fraction
     \<and> CHR ''.'' \<notin> set whole \<and> CHR ''.'' \<notin> set fraction \<and> length fraction = 2"
proof -
  obtain whole fraction where t: "toFixed 2 d = whole @ ''.'' @ fraction"
    "CHR ''.'' \<notin> set whole" "CHR ''.'' \<notin> set fraction" "length fraction = 2"
    using toFixed_2_shape [of d] by blast
  then have "fixed2 d = whole @ escaped_dot @ fraction"
    by (simp add: fixed2_def replace_first_split)
  with t show ?thesis
    by blast
qed

lemma escaped_in_context:
  assumes "CHR ''.'' \<notin> set a" and "CHR ''.'' \<notin> set b"
    and "i < length (a @ escaped_dot @ b)" and "(a @ escaped_dot @ b) ! i = CHR ''.''"
  shows "0 < i \<and> (a @ escaped_dot @ b) ! (i - 1) = CHR 0x5C"
proof -
  consider "i < length a" | "i = length a" | "i = Suc (length a)" | "Suc (Suc (length a)) \<le> i"
    by linarith
  then show ?thesis
  proof cases
    case 1
    then have "(a @ escaped_dot @ b) ! i \<in> set a"
      by (simp add: nth_append)
    with assms show ?thesis by simp
  next
    case 2
    then have "(a @ escaped_dot @ b) ! i = CHR 0x5C"
      by (simp add: nth_append escaped_dot_def)
    with assms show ?thesis by simp
  next
    case 3
    then show ?thesis
      by (simp add: nth_append escaped_dot_def)
  next
    case 4
    then have "(a @ escaped_dot @ b) ! i = b ! (i - Suc (Suc (length a)))"
      by (auto simp: nth_append escaped_dot_def nth_Cons' Suc_diff_Suc)
    moreover have "i - Suc (Suc (length a)) < length b"
      using 4 assms(3) by (simp add: escaped_dot_def)
    ultimately have "(a @ escaped_dot @ b) ! i \<in> set b"
      by simp
    with assms show ?thesis by simp
  qed
qed

text \<open>
  C9. For a sample without a health factor and any net worth, the badge is
  \<^verbatim>\<open>N/A\<close>; the status text is the template with \<^verbatim>\<open>N/A\<close> as the badge and
  in the health factor field; formatting gives a text, not an error; the net worth is
  printed with one decimal point and two digits after it, and that point is written
  with a backslash before it; and every point of the status text has a backslash
  before it.
\<close>

theorem absent_health_renders_NA:
  assumes "healthFactor st = None"
  shows "getStatusString env st = ''N/A''
       \<and> formatStatus env st =
           ''*N/A*'' @ newline @ newline @ ''Health factor: *N/A*'' @ newline
           @ ''Net worth: *'' @ fixed2 (netWorth st) @ ''$*''
       \<and> getStatusMessage env (Inr st) = Inr (formatStatus env st)
       \<and> (\<exists>whole fraction.
            toFixed 2 (netWorth st) = whole @ ''.'' @ fraction
            \<and> fixed2 (netWorth st) = whole @ escaped_dot @ fraction
            \<and> CHR ''.'' \<notin> set whole \<and> CHR ''.'' \<notin> set fraction \<and> length fraction = 2)
       \<and> (\<forall>i < length (formatStatus env st).
            formatStatus env st ! i = CHR ''.'' \<longrightarrow>
            0 < i \<and> formatStatus env st ! (i - 1) = CHR 0x5C)"
proof -
  have badge: "getStatusString env st = ''N/A''"
    using assms by (simp add: getStatusString_def)
  have body: "formatStatus env st =
      ''*N/A*'' @ newline @ newline @ ''Health factor: *N/A*'' @ newline
      @ ''Net worth: *'' @ fixed2 (netWorth st) @ ''$*''"
    using assms by (simp add: formatStatus_def badge health_field_def)
  obtain whole fraction where shape: "toFixed 2 (netWorth st) = whole @ ''.'' @ fraction"
    "fixed2 (netWorth st) = whole @ escaped_dot @ fraction"
    "CHR ''.'' \<notin> set whole" "CHR ''.'' \<notin> set fraction" "length fraction = 2"
    using fixed2_shape [of "netWorth st"] by blast
  define a where "a = ''*N/A*'' @ newline @ newline @ ''Health factor: *N/A*'' @ newline
      @ ''Net worth: *'' @ whole"
  define b where "b = fraction @ ''$*''"
  have split: "formatStatus env st = a @ escaped_dot @ b"
    by (simp add: body shape a_def b_def)
  have "CHR ''.'' \<notin> set a" "CHR ''.'' \<notin> set b"
    using shape by (simp_all add: a_def b_def newline_def)
  then have "\<forall>i < length (formatStatus env st).
      formatStatus env st ! i = CHR ''.'' \<longrightarrow>
      0 < i \<and> formatStatus env st ! (i - 1) = CHR 0x5C"
    unfolding split using escaped_in_context [of a b] by blast
  moreover have "getStatusMessage env (Inr st) = Inr (formatStatus env st)"
    by (simp add: getStatusMessage_def)
  ultimately show ?thesis
    using badge body shape by blast
qed

text \<open>C9 at the net worth 123.456.\<close>

theorem absent_health_renders_NA_witness:
  "formatStatus default_environment (absent (dec 123456 (- 3))) =
     ''*N/A*'' @ newline @ newline @ ''Health factor: *N/A*'' @ newline
     @ ''Net worth: *123'' @ escaped_dot @ ''46$*''
   \<and> getStatusMessage default_environment (Inr (absent (dec 123456 (- 3)))) =
     Inr (formatStatus default_environment (absent (dec 123456 (- 3))))"
proof -
  have n: "healthFactor (absent (dec 123456 (- 3))) = None"
    "netWorth (absent (dec 123456 (- 3))) = dec 123456 (- 3)"
    by (simp_all add: absent_def)
  have f: "fixed2 (dec 123456 (- 3)) = ''123'' @ escaped_dot @ ''46''"
    by (simp add: fixed2_def toFixed_def dec_def fraction_digits_def digit_char_def
        digits_str.simps escaped_dot_def Let_def upt_rec)
  show ?thesis
    using absent_health_renders_NA [OF n(1), of default_environment] n(2) f
    by simp
qed

end
